theory Spec2Isabelle
  imports Complex_Main "HOL-Library.Multiset"
begin

section \<open>Diabetes modelling notebook: a shallow embedding of \<open>modeling_v2.ipynb\<close>\<close>

text \<open>
  The notebook is one top-to-bottom script of library calls. The embedding keeps the
  script's own logic (branches, exception handlers, dictionary lookups, the order of
  writes) and takes the numerical library routines it calls (model fitting, prediction,
  scoring, the attribution explainer, the random sampler) as parameters.

  Python exceptions are values: a computation that may raise returns \<open>exn + 'a\<close>, with
  \<open>Inl\<close> the raised exception. Floating-point scores are modelled as reals; none of the
  library scores used here is ever NaN.
\<close>

subsection \<open>Exceptions and sequencing\<close>

datatype exn_kind =
  AttributeError | ValueError | IndexError | TypeError | KeyError | NameError
  | FileNotFoundError | UnpicklingError | EOFError | KeyboardInterrupt | SystemExit

datatype exn = Exn (kind: exn_kind) (msg: string)

text \<open>\<open>except Exception\<close> catches every class but the two that derive from
  \<open>BaseException\<close> only.\<close>

definition is_Exception :: "exn_kind \<Rightarrow> bool" where
  "is_Exception k = (k \<noteq> KeyboardInterrupt \<and> k \<noteq> SystemExit)"

text \<open>Statement sequencing: the first exception ends the run of statements.\<close>

definition bnd :: "exn + 'a \<Rightarrow> ('a \<Rightarrow> exn + 'b) \<Rightarrow> exn + 'b" where
  "bnd r f = (case r of Inl e \<Rightarrow> Inl e | Inr v \<Rightarrow> f v)"

type_synonym matrix = "real list list"
type_synonym labels = "nat list"

text \<open>The Python values the input artifact can hold: a data frame, a label series, a list
  of names, a dictionary, or \<open>None\<close>.\<close>

datatype pyval =
  Frame matrix | Series labels | Names "string list" | Dict "(string \<times> pyval) list" | NoneVal

text \<open>What a cell shows: printed lines (a formatted value keeps its label and the value
  itself) and the confusion-matrix plot.\<close>

datatype out =
  Print string | PrintScore string real | PrintShapes "nat list" "nat list"
  | PrintVal string pyval | Heatmap "nat list list" string

subsection \<open>Loading the preprocessed data (lines 65-80)\<close>

text \<open>The kernel's state: the global variables and what has been printed. A statement
  or a cell runs on a state and leaves a state, together with the exception that stopped
  it, if one did; assignments made before the exception stay.\<close>

record kernel =
  globals :: "string \<rightharpoonup> pyval"
  out_lines :: "out list"

type_synonym stmt = "kernel \<Rightarrow> exn option \<times> kernel"

fun run_stmts :: "stmt list \<Rightarrow> stmt" where
  "run_stmts [] k = (None, k)"
| "run_stmts (s # ss) k =
     (case s k of
        (Some e, k') \<Rightarrow> (Some e, k')
      | (None, k') \<Rightarrow> run_stmts ss k')"

definition emit :: "out \<Rightarrow> kernel \<Rightarrow> kernel" where
  "emit line k = k\<lparr>out_lines := out_lines k @ [line]\<rparr>"

definition lookup_var :: "string \<Rightarrow> kernel \<Rightarrow> exn + pyval" where
  "lookup_var name k =
     (case globals k name of
        None \<Rightarrow> Inl (Exn NameError name)
      | Some v \<Rightarrow> Inr v)"

text \<open>\<open>obj[key]\<close> with a string key.\<close>

definition subscript :: "pyval \<Rightarrow> string \<Rightarrow> exn + pyval" where
  "subscript obj key =
     (case obj of
        Dict kvs \<Rightarrow> (case map_of kvs key of None \<Rightarrow> Inl (Exn KeyError key) | Some v \<Rightarrow> Inr v)
      | Frame X \<Rightarrow> Inl (Exn KeyError key)
      | Series y \<Rightarrow> Inl (Exn KeyError key)
      | Names ns \<Rightarrow> Inl (Exn TypeError ''list indices must be integers or slices, not str'')
      | NoneVal \<Rightarrow> Inl (Exn TypeError ''NoneType object is not subscriptable''))"

text \<open>\<open>obj.shape\<close>.\<close>

definition shape :: "pyval \<Rightarrow> exn + nat list" where
  "shape obj =
     (case obj of
        Frame X \<Rightarrow> Inr [length X, (case X of [] \<Rightarrow> 0 | r # _ \<Rightarrow> length r)]
      | Series y \<Rightarrow> Inr [length y]
      | Names ns \<Rightarrow> Inl (Exn AttributeError ''list object has no attribute shape'')
      | Dict kvs \<Rightarrow> Inl (Exn AttributeError ''dict object has no attribute shape'')
      | NoneVal \<Rightarrow> Inl (Exn AttributeError ''NoneType object has no attribute shape''))"

text \<open>Lines 68-69: \<open>open\<close> fails on a missing file; \<open>pickle.load\<close> is a parameter and
  fails on content it cannot read.\<close>

definition load_pickle :: "(string \<rightharpoonup> 'f) \<Rightarrow> ('f \<Rightarrow> exn + pyval) \<Rightarrow> stmt" where
  "load_pickle files unpickle k =
     (case files ''data/preprocessed_data.pkl'' of
        None \<Rightarrow> (Some (Exn FileNotFoundError ''No such file or directory: data/preprocessed_data.pkl''), k)
      | Some f \<Rightarrow>
          (case unpickle f of
             Inl e \<Rightarrow> (Some e, k)
           | Inr v \<Rightarrow> (None, k\<lparr>globals := (globals k)(''preprocessed_data'' \<mapsto> v)\<rparr>)))"

text \<open>Lines 71-75: \<open>var = preprocessed_data[key]\<close>.\<close>

definition assign_item :: "string \<Rightarrow> string \<Rightarrow> stmt" where
  "assign_item var key k =
     (case lookup_var ''preprocessed_data'' k of
        Inl e \<Rightarrow> (Some e, k)
      | Inr d \<Rightarrow>
          (case subscript d key of
             Inl e \<Rightarrow> (Some e, k)
           | Inr v \<Rightarrow> (None, k\<lparr>globals := (globals k)(var \<mapsto> v)\<rparr>)))"

text \<open>Line 77.\<close>

definition print_shapes :: stmt where
  "print_shapes k =
     (case bnd (lookup_var ''X_train'' k) shape of
        Inl e \<Rightarrow> (Some e, k)
      | Inr s1 \<Rightarrow>
          (case bnd (lookup_var ''X_test'' k) shape of
             Inl e \<Rightarrow> (Some e, k)
           | Inr s2 \<Rightarrow> (None, emit (PrintShapes s1 s2) k)))"

text \<open>Line 78.\<close>

definition print_features :: stmt where
  "print_features k =
     (case lookup_var ''feature_names'' k of
        Inl e \<Rightarrow> (Some e, k)
      | Inr v \<Rightarrow> (None, emit (PrintVal ''Selected features'' v) k))"

definition load_try_body :: "(string \<rightharpoonup> 'f) \<Rightarrow> ('f \<Rightarrow> exn + pyval) \<Rightarrow> stmt" where
  "load_try_body files unpickle =
     run_stmts
       [load_pickle files unpickle,
        assign_item ''X_train'' ''X_train'',
        assign_item ''X_test'' ''X_test'',
        assign_item ''y_train'' ''y_train'',
        assign_item ''y_test'' ''y_test'',
        assign_item ''feature_names'' ''feature_names'',
        print_shapes,
        print_features]"

text \<open>The cell: \<open>except Exception as e\<close> prints the message and the cell ends normally.\<close>

definition load_cell :: "(string \<rightharpoonup> 'f) \<Rightarrow> ('f \<Rightarrow> exn + pyval) \<Rightarrow> stmt" where
  "load_cell files unpickle k =
     (case load_try_body files unpickle (emit (Print ''Loading preprocessed data...'') k) of
        (None, k') \<Rightarrow> (None, k')
      | (Some e, k') \<Rightarrow>
          if is_Exception (kind e)
          then (None, emit (Print (''Error loading preprocessed data: '' @ msg e)) k')
          else (Some e, k'))"

text \<open>A run of the notebook is a run of its cells in order; it stops at the first cell
  that raises.\<close>

definition run_cells :: "stmt list \<Rightarrow> stmt" where
  "run_cells cells = run_stmts cells"

subsection \<open>Dimensionality reduction (lines 111-143 and 163-220)\<close>

text \<open>
  The projector and the encoder network are objects of scikit-learn and Keras; only the
  calls are in the notebook. Their fitting (a singular value decomposition, a gradient
  descent) is a parameter. Applying a fitted object is modelled from the spec; every
  method returns the object as the call leaves it, next to its result, so that a change
  of the fitted parameters would be visible.
\<close>

definition dot :: "real list \<Rightarrow> real list \<Rightarrow> real" where
  "dot u v = sum_list (map2 (*) u v)"

definition ncols :: "matrix \<Rightarrow> nat" where
  "ncols X = (case X of [] \<Rightarrow> 0 | r # _ \<Rightarrow> length r)"

definition col_means :: "matrix \<Rightarrow> real list" where
  "col_means X = map (\<lambda>j. sum_list (map (\<lambda>r. r ! j) X) / real (length X)) [0..<ncols X]"

record pca_model =
  n_components :: nat
  pca_mean :: "real list"
  pca_components :: matrix

text \<open>\<open>PCA(n_components=k)\<close>: an object that is not fitted yet.\<close>

definition PCA :: "nat \<Rightarrow> pca_model" where
  "PCA k = \<lparr>n_components = k, pca_mean = [], pca_components = []\<rparr>"

text \<open>Modelled from the spec: the projection of scikit-learn's \<open>PCA\<close>, which is not in
  the repository. The spec's linear method ("fit a fixed number of orthogonal projection
  axes on the training matrix only ... transform both partitions"): a row is centred and
  projected on each axis.\<close>

definition pca_project :: "pca_model \<Rightarrow> real list \<Rightarrow> real list" where
  "pca_project p x = map (\<lambda>axis. dot (map2 (-) x (pca_mean p)) axis) (pca_components p)"

text \<open>Modelled from the spec: \<open>PCA.fit_transform\<close>, which is not in the repository.
  Fitting sets the mean and the axes from the matrix it is given (\<open>axes\<close> is the
  library's decomposition) and returns that matrix transformed.\<close>

definition pca_fit_transform ::
  "(nat \<Rightarrow> matrix \<Rightarrow> matrix) \<Rightarrow> pca_model \<Rightarrow> matrix \<Rightarrow> pca_model \<times> matrix" where
  "pca_fit_transform axes p X =
     (let fitted = p\<lparr>pca_mean := col_means X, pca_components := axes (n_components p) X\<rparr>
      in (fitted, map (pca_project fitted) X))"

text \<open>Modelled from the spec: \<open>PCA.transform\<close>, which is not in the repository. The
  fitted projector is "applied unchanged (no refitting)": the transform maps each row on
  its own and leaves the object as it was.\<close>

definition pca_transform :: "pca_model \<Rightarrow> matrix \<Rightarrow> pca_model \<times> matrix" where
  "pca_transform p X = (p, map (pca_project p) X)"

text \<open>The encoder half of the network of lines 172-177 and 213: a dense layer of 12
  units, a batch normalisation, the bottleneck layer, both dense layers with the
  rectifier. At prediction time the normalisation is an affine map per unit. The
  weights are whatever training left.\<close>

record dense =
  dense_kernel :: matrix
  dense_bias :: "real list"

record batch_norm =
  bn_scale :: "real list"
  bn_shift :: "real list"

record encoder =
  enc_hidden :: dense
  enc_norm :: batch_norm
  enc_bottleneck :: dense

definition relu :: "real \<Rightarrow> real" where
  "relu v = max 0 v"

definition dense_apply :: "dense \<Rightarrow> real list \<Rightarrow> real list" where
  "dense_apply L x = map2 (\<lambda>w b. relu (dot w x + b)) (dense_kernel L) (dense_bias L)"

definition bn_apply :: "batch_norm \<Rightarrow> real list \<Rightarrow> real list" where
  "bn_apply B x = map2 (\<lambda>(s, t) v. s * v + t) (zip (bn_scale B) (bn_shift B)) x"

definition encode :: "encoder \<Rightarrow> real list \<Rightarrow> real list" where
  "encode e x = dense_apply (enc_bottleneck e) (bn_apply (enc_norm e) (dense_apply (enc_hidden e) x))"

text \<open>Modelled from the spec: \<open>Model.predict\<close> of Keras, which is not in the repository.
  "The encoder half is reused post-training to project both partitions": prediction maps
  each row on its own and leaves the weights as they were.\<close>

definition encoder_predict :: "encoder \<Rightarrow> matrix \<Rightarrow> encoder \<times> matrix" where
  "encoder_predict e X = (e, map (encode e) X)"

text \<open>The two fitting routines: the decomposition behind \<open>PCA.fit_transform\<close>, and
  \<open>autoencoder.fit\<close> followed by cutting the network at the bottleneck (arguments: input
  width, bottleneck width, inputs, targets).\<close>

record reduction_lib =
  principal_axes :: "nat \<Rightarrow> matrix \<Rightarrow> matrix"
  train_encoder :: "nat \<Rightarrow> nat \<Rightarrow> matrix \<Rightarrow> matrix \<Rightarrow> encoder"

text \<open>The library calls of the two cells, in order, each with the data it was given.\<close>

datatype lib_call =
  PCA_fit_transform nat matrix | PCA_transform matrix
  | Autoencoder_fit matrix matrix | Encoder_predict matrix

text \<open>One round of lines 116-118 (and 137-139).\<close>

definition pca_round ::
  "reduction_lib \<Rightarrow> nat \<Rightarrow> matrix \<Rightarrow> matrix \<Rightarrow> lib_call list
     \<Rightarrow> pca_model \<times> matrix \<times> matrix \<times> lib_call list" where
  "pca_round lib n X_train X_test calls =
     (let (pca1, X_train_pca) = pca_fit_transform (principal_axes lib) (PCA n) X_train;
          (pca2, X_test_pca) = pca_transform pca1 X_test
      in (pca2, X_train_pca, X_test_pca,
          calls @ [PCA_fit_transform n X_train, PCA_transform X_test]))"

record reduction =
  pca :: pca_model
  X_train_pca :: matrix
  X_test_pca :: matrix
  encoder_model :: encoder
  X_train_encoded :: matrix
  X_test_encoded :: matrix
  calls :: "lib_call list"

text \<open>The two cells. The loop over 5, 7 and 9 components only prints and plots; its
  variables are assigned again right after it.\<close>

definition reduce_dimensions :: "reduction_lib \<Rightarrow> matrix \<Rightarrow> matrix \<Rightarrow> reduction" where
  "reduce_dimensions lib X_train X_test =
     (let tried = foldl (\<lambda>calls n. snd (snd (snd (pca_round lib n X_train X_test calls)))) [] [5, 7, 9];
          (pca2, Xtr_pca, Xte_pca, calls1) = pca_round lib 7 X_train X_test tried;
          input_dim = ncols X_train;
          encoding_dim = 7;
          trained = train_encoder lib input_dim encoding_dim X_train X_train;
          calls2 = calls1 @ [Autoencoder_fit X_train X_train];
          (enc1, Xtr_enc) = encoder_predict trained X_train;
          (enc2, Xte_enc) = encoder_predict enc1 X_test
      in \<lparr>pca = pca2, X_train_pca = Xtr_pca, X_test_pca = Xte_pca,
          encoder_model = enc2, X_train_encoded = Xtr_enc, X_test_encoded = Xte_enc,
          calls = calls2 @ [Encoder_predict X_train, Encoder_predict X_test]\<rparr>)"

text \<open>The data a call fits on, if it is a fitting call.\<close>

definition fit_data :: "lib_call \<Rightarrow> matrix option" where
  "fit_data c =
     (case c of
        PCA_fit_transform n D \<Rightarrow> Some D
      | Autoencoder_fit D T \<Rightarrow> Some D
      | PCA_transform D \<Rightarrow> None
      | Encoder_predict D \<Rightarrow> None)"

subsection \<open>The evaluation result bundle\<close>

text \<open>The dictionary returned by \<open>evaluate_model\<close> (lines 293-300): fixed keys, so a
  record. \<open>auc\<close> is Python's \<open>None\<close> or a float.\<close>

record 'm eval_result =
  model :: "'m"
  accuracy :: real
  precision :: real
  recall :: real
  f1 :: real
  auc :: "real option"

subsection \<open>The evaluation harness \<open>evaluate_model\<close> (lines 252-300)\<close>

text \<open>A classifier object is its mutable state \<open>'m\<close> together with the methods its class
  offers. \<open>predict_proba\<close> is \<open>None\<close> when looking the attribute up raises
  \<open>AttributeError\<close>; a method that is there may still raise any exception when called.\<close>

record 'm classifier =
  fit :: "'m \<Rightarrow> matrix \<Rightarrow> labels \<Rightarrow> exn + 'm"
  predict :: "'m \<Rightarrow> matrix \<Rightarrow> exn + labels"
  predict_proba :: "('m \<Rightarrow> matrix \<Rightarrow> exn + matrix) option"

text \<open>The scoring routines imported from \<open>sklearn.metrics\<close> (line 29), as parameters.\<close>

record sklearn_metrics =
  accuracy_score :: "labels \<Rightarrow> labels \<Rightarrow> exn + real"
  precision_score :: "labels \<Rightarrow> labels \<Rightarrow> exn + real"
  recall_score :: "labels \<Rightarrow> labels \<Rightarrow> exn + real"
  f1_score :: "labels \<Rightarrow> labels \<Rightarrow> exn + real"
  roc_auc_score :: "labels \<Rightarrow> real list \<Rightarrow> exn + real"
  confusion_matrix :: "labels \<Rightarrow> labels \<Rightarrow> exn + nat list list"

definition getattr_predict_proba :: "'m classifier \<Rightarrow> exn + ('m \<Rightarrow> matrix \<Rightarrow> exn + matrix)" where
  "getattr_predict_proba cls =
     (case predict_proba cls of
        None \<Rightarrow> Inl (Exn AttributeError ''predict_proba'')
      | Some pp \<Rightarrow> Inr pp)"

text \<open>The numpy index \<open>P[:, j]\<close>.\<close>

definition column :: "matrix \<Rightarrow> nat \<Rightarrow> exn + real list" where
  "column P j =
     (if list_all (\<lambda>r. j < length r) P then Inr (map (\<lambda>r. r ! j) P)
      else Inl (Exn IndexError ''index is out of bounds for axis 1''))"

text \<open>The body of the \<open>try\<close> (lines 268-269).\<close>

definition auc_try_body ::
  "sklearn_metrics \<Rightarrow> 'm classifier \<Rightarrow> 'm \<Rightarrow> matrix \<Rightarrow> labels \<Rightarrow> exn + real" where
  "auc_try_body lib cls m X_test y_test =
     bnd (getattr_predict_proba cls) (\<lambda>pp.
     bnd (pp m X_test) (\<lambda>P.
     bnd (column P 1) (\<lambda>y_prob.
     roc_auc_score lib y_test y_prob)))"

text \<open>The handler \<open>except AttributeError: auc = None\<close> (lines 270-272).\<close>

definition except_AttributeError :: "exn + real \<Rightarrow> exn + real option" where
  "except_AttributeError r =
     (case r of
        Inr a \<Rightarrow> Inr (Some a)
      | Inl e \<Rightarrow> if kind e = AttributeError then Inr None else Inl e)"

text \<open>Lines 275-281: the AUC line is printed only when there is an AUC.\<close>

definition report :: "string \<Rightarrow> real \<Rightarrow> real \<Rightarrow> real \<Rightarrow> real \<Rightarrow> real option \<Rightarrow> out list" where
  "report model_name a p r f au =
     [Print (model_name @ '' Performance:''), PrintScore ''Accuracy'' a,
      PrintScore ''Precision'' p, PrintScore ''Recall'' r, PrintScore ''F1 Score'' f]
     @ (case au of None \<Rightarrow> [] | Some v \<Rightarrow> [PrintScore ''ROC AUC'' v])"

definition evaluate_model ::
  "sklearn_metrics \<Rightarrow> 'm classifier \<Rightarrow> 'm \<Rightarrow> matrix \<Rightarrow> matrix \<Rightarrow> labels \<Rightarrow> labels \<Rightarrow> string
     \<Rightarrow> exn + ('m eval_result \<times> out list)" where
  "evaluate_model lib cls m X_train X_test y_train y_test model_name =
     bnd (fit cls m X_train y_train) (\<lambda>fitted.
     bnd (predict cls fitted X_test) (\<lambda>y_pred.
     bnd (accuracy_score lib y_test y_pred) (\<lambda>a.
     bnd (precision_score lib y_test y_pred) (\<lambda>p.
     bnd (recall_score lib y_test y_pred) (\<lambda>r.
     bnd (f1_score lib y_test y_pred) (\<lambda>f.
     bnd (except_AttributeError (auc_try_body lib cls fitted X_test y_test)) (\<lambda>au.
     bnd (confusion_matrix lib y_test y_pred) (\<lambda>cm.
     Inr (\<lparr>model = fitted, accuracy = a, precision = p, recall = r, f1 = f, auc = au\<rparr>,
          report model_name a p r f au
          @ [Heatmap cm (model_name @ '' Confusion Matrix'')])))))))))"

subsection \<open>Comparison table and model selection (lines 430-443, 618-620)\<close>

definition models :: "string list" where
  "models = [''XGBoost'', ''LightGBM'', ''XGBoost+PCA'', ''LightGBM+PCA'',
             ''XGBoost+Autoencoder'', ''LightGBM+Autoencoder'', ''Stacked Ensemble'']"

record row =
  Model :: string
  Accuracy :: real
  Precision :: real
  Recall :: real
  F1_Score :: real
  AUC :: "real option"

definition mk_row :: "string \<Rightarrow> 'm eval_result \<Rightarrow> row" where
  "mk_row name r = \<lparr>Model = name, Accuracy = accuracy r, Precision = precision r,
                    Recall = recall r, F1_Score = f1 r, AUC = auc r\<rparr>"

text \<open>\<open>pd.DataFrame\<close> of a dictionary of columns: the columns must have one length.\<close>

definition comparison_df :: "'m eval_result list \<Rightarrow> exn + row list" where
  "comparison_df results =
     (if length results = length models then Inr (map2 mk_row models results)
      else Inl (Exn ValueError ''All arrays must be of the same length''))"

text \<open>\<open>Series.idxmax\<close> on the default integer index: a left-to-right scan that moves
  to a later position only for a strictly larger value, so the first position of the
  maximum is returned; an empty series raises \<open>ValueError\<close>.\<close>

fun idxmax_loop :: "real list \<Rightarrow> nat \<Rightarrow> nat \<Rightarrow> real \<Rightarrow> nat" where
  "idxmax_loop [] i best bv = best"
| "idxmax_loop (x # xs) i best bv =
     (if bv < x then idxmax_loop xs (Suc i) i x else idxmax_loop xs (Suc i) best bv)"

definition idxmax :: "real list \<Rightarrow> exn + nat" where
  "idxmax xs =
     (case xs of
        [] \<Rightarrow> Inl (Exn ValueError ''attempt to get argmax of an empty sequence'')
      | x # rest \<Rightarrow> Inr (idxmax_loop rest 1 0 x))"

text \<open>Lines 618-620: \<open>best_model_idx\<close>, \<open>best_model_name\<close>, \<open>best_model_f1\<close>.\<close>

definition select_best :: "row list \<Rightarrow> exn + (nat \<times> string \<times> real)" where
  "select_best df =
     bnd (idxmax (map F1_Score df))
       (\<lambda>best_model_idx.
          Inr (best_model_idx, Model (df ! best_model_idx), F1_Score (df ! best_model_idx)))"

subsection \<open>Attribution analysis (lines 467-575)\<close>

text \<open>\<open>DataFrame.sample(n, random_state=seed)\<close> takes the rows at the positions the seeded
  generator picks, without replacement. The generator is a parameter: \<open>choice seed N n\<close>
  are the \<open>n\<close> positions picked among \<open>N\<close>.\<close>

definition df_sample :: "(nat \<Rightarrow> nat \<Rightarrow> nat \<Rightarrow> nat list) \<Rightarrow> matrix \<Rightarrow> nat \<Rightarrow> nat \<Rightarrow> exn + matrix" where
  "df_sample choice X n random_state =
     (if length X < n
      then Inl (Exn ValueError ''Cannot take a larger sample than population when replace=False'')
      else if list_all (\<lambda>i. i < length X) (choice random_state (length X) n)
      then Inr (map (\<lambda>i. X ! i) (choice random_state (length X) n))
      else Inl (Exn IndexError ''positional indexers are out-of-bounds''))"

text \<open>What the cell leaves: the attribution values, the rows they were computed on (the
  argument of \<open>explainer.shap_values\<close>) and the rows kept for plotting.\<close>

record attribution =
  shap_values :: matrix
  explained_rows :: matrix
  X_test_sample :: matrix

text \<open>Lines 474-479, and again lines 549-554 for the second classifier. The explainer is
  a parameter.\<close>

definition shap_cell ::
  "(matrix \<Rightarrow> exn + matrix) \<Rightarrow> (nat \<Rightarrow> nat \<Rightarrow> nat \<Rightarrow> nat list) \<Rightarrow> matrix \<Rightarrow> exn + attribution" where
  "shap_cell explain choice X_test =
     (if 1000 < length X_test then
        bnd (df_sample choice X_test 1000 42) (\<lambda>given.
        bnd (explain given) (\<lambda>values.
        bnd (df_sample choice X_test 1000 42) (\<lambda>kept.
        Inr \<lparr>shap_values = values, explained_rows = given, X_test_sample = kept\<rparr>)))
      else
        bnd (explain X_test) (\<lambda>values.
        Inr \<lparr>shap_values = values, explained_rows = X_test, X_test_sample = X_test\<rparr>))"

text \<open>Line 506, \<open>np.abs(shap_values).mean(0)\<close>: per column, the mean over the rows of the
  absolute value. (For a matrix with no rows numpy gives NaN; the cell cannot get there,
  the explainer having been given at least one row.)\<close>

definition mean_abs_shap :: "matrix \<Rightarrow> real list" where
  "mean_abs_shap values =
     map (\<lambda>j. sum_list (map (\<lambda>r. \<bar>r ! j\<bar>) values) / real (length values)) [0..<ncols values]"

text \<open>\<open>sort_values(..., ascending=False)\<close> on the score column. The order pandas gives
  to equal scores is not fixed; here equal scores keep their order.\<close>

definition sort_desc :: "('a \<Rightarrow> real) \<Rightarrow> 'a list \<Rightarrow> 'a list" where
  "sort_desc score rows = sort_key (\<lambda>r. - score r) rows"

text \<open>Lines 507-509: the table of the first classifier, ranked.\<close>

definition feature_importance :: "string list \<Rightarrow> matrix \<Rightarrow> (string \<times> real) list" where
  "feature_importance columns values = sort_desc snd (zip columns (mean_abs_shap values))"

text \<open>Lines 565-567: the table of the second classifier, in column order.\<close>

definition feature_importance_lgb :: "string list \<Rightarrow> matrix \<Rightarrow> (string \<times> real) list" where
  "feature_importance_lgb columns values_lgb = zip columns (mean_abs_shap values_lgb)"

text \<open>\<open>left.merge(right, on='Feature')\<close>: the inner join, in the order of the left table.\<close>

definition merge_on_feature ::
  "(string \<times> real) list \<Rightarrow> (string \<times> real) list \<Rightarrow> (string \<times> real \<times> real) list" where
  "merge_on_feature left right =
     concat (map (\<lambda>(f, s). map (\<lambda>(g, t). (f, s, t)) (filter (\<lambda>(g, t). g = f) right)) left)"

text \<open>Lines 570-571: the merged table, sorted by the first classifier's score.\<close>

definition feature_importance_merged ::
  "string list \<Rightarrow> matrix \<Rightarrow> matrix \<Rightarrow> (string \<times> real \<times> real) list" where
  "feature_importance_merged columns values values_lgb =
     sort_desc (\<lambda>(f, s, t). s)
       (merge_on_feature (feature_importance columns values)
                         (feature_importance_lgb columns values_lgb))"

subsection \<open>Saving the best model (lines 684-727)\<close>

datatype 'm artifact =
  ModelPkl 'm | ProjectorPkl pca_model | EncoderH5 encoder | ImportanceCsv "(string \<times> real) list"

text \<open>The disk: the directories, and the files written, oldest first (a later write to
  a path replaces the earlier one). With it, the lines printed.\<close>

record 'm world =
  fs_dirs :: "string list"
  fs_files :: "(string \<times> 'm artifact) list"
  printed :: "string list"

definition makedirs_exist_ok :: "string \<Rightarrow> 'm world \<Rightarrow> 'm world" where
  "makedirs_exist_ok d w = w\<lparr>fs_dirs := List.insert d (fs_dirs w)\<rparr>"

definition dump :: "'m artifact \<Rightarrow> string \<Rightarrow> 'm world \<Rightarrow> 'm world" where
  "dump obj path w = w\<lparr>fs_files := fs_files w @ [(path, obj)]\<rparr>"

definition say :: "string \<Rightarrow> 'm world \<Rightarrow> 'm world" where
  "say line w = w\<lparr>printed := printed w @ [line]\<rparr>"

definition path_join :: "string \<Rightarrow> string \<Rightarrow> string" where
  "path_join a b = a @ ''/'' @ b"

text \<open>\<open>s.replace(' ', '_')\<close>, \<open>s.lower()\<close> and \<open>sub in s\<close> on ASCII strings.\<close>

definition replace_char :: "char \<Rightarrow> char \<Rightarrow> string \<Rightarrow> string" where
  "replace_char a b s = map (\<lambda>c. if c = a then b else c) s"

definition lower_char :: "char \<Rightarrow> char" where
  "lower_char c =
     (case map_of (zip ''ABCDEFGHIJKLMNOPQRSTUVWXYZ'' ''abcdefghijklmnopqrstuvwxyz'') c of
        Some l \<Rightarrow> l
      | None \<Rightarrow> c)"

definition lower :: "string \<Rightarrow> string" where
  "lower s = map lower_char s"

fun starts_with :: "string \<Rightarrow> string \<Rightarrow> bool" where
  "starts_with [] s = True"
| "starts_with (p # ps) [] = False"
| "starts_with (p # ps) (c # cs) = (p = c \<and> starts_with ps cs)"

fun contains :: "string \<Rightarrow> string \<Rightarrow> bool" where
  "contains sub [] = (sub = [])"
| "contains sub (c # cs) = (starts_with sub (c # cs) \<or> contains sub cs)"

text \<open>The variables the cell reads.\<close>

record 'm session =
  best_model_name :: string
  xgb_results :: "'m eval_result"
  lgb_results :: "'m eval_result"
  xgb_pca_results :: "'m eval_result"
  lgb_pca_results :: "'m eval_result"
  xgb_ae_results :: "'m eval_result"
  lgb_ae_results :: "'m eval_result"
  stacked_results :: "'m eval_result"
  reduced :: reduction
  importance_table :: "(string \<times> real) list"

text \<open>Lines 692-700: the dictionary from names to result bundles.\<close>

definition model_results_map :: "'m session \<Rightarrow> (string \<times> 'm eval_result) list" where
  "model_results_map s =
     [(''XGBoost'', xgb_results s),
      (''LightGBM'', lgb_results s),
      (''XGBoost with PCA'', xgb_pca_results s),
      (''LightGBM with PCA'', lgb_pca_results s),
      (''XGBoost with Autoencoder'', xgb_ae_results s),
      (''LightGBM with Autoencoder'', lgb_ae_results s),
      (''Stacked Ensemble'', stacked_results s)]"

text \<open>Lines 705-721, the branch taken when the lookup found a bundle (a bundle is a
  dictionary with six keys, so it is true as a condition).\<close>

definition save_found :: "'m session \<Rightarrow> 'm eval_result \<Rightarrow> 'm world \<Rightarrow> 'm world" where
  "save_found s best_model_result w =
     (let best_model = model best_model_result;
          model_path = path_join ''models''
                         (lower (replace_char (CHR '' '') (CHR ''_'') (best_model_name s)) @ ''.pkl'');
          w1 = dump (ModelPkl best_model) model_path w;
          w2 = (if contains ''PCA'' (best_model_name s)
                then dump (ProjectorPkl (pca (reduced s))) (path_join ''models'' ''pca_transformer.pkl'') w1
                else if contains ''Autoencoder'' (best_model_name s)
                then dump (EncoderH5 (encoder_model (reduced s)))
                       (path_join ''models'' ''autoencoder_encoder.h5'') w1
                else w1);
          w3 = dump (ModelPkl (model (stacked_results s))) (path_join ''models'' ''stacked_ensemble.pkl'') w2;
          w4 = say (''Best model ('' @ best_model_name s @ '') saved to '' @ model_path) w3
      in say ''Stacked ensemble model also saved to models/stacked_ensemble.pkl'' w4)"

text \<open>The cell.\<close>

definition save_cell :: "'m session \<Rightarrow> 'm world \<Rightarrow> 'm world" where
  "save_cell s w =
     (let w0 = makedirs_exist_ok ''models'' w;
          w1 = (case map_of (model_results_map s) (best_model_name s) of
                  Some best_model_result \<Rightarrow> save_found s best_model_result w0
                | None \<Rightarrow> say ''Could not find the best model to save.'' w0);
          w2 = dump (ImportanceCsv (importance_table s)) (path_join ''models'' ''feature_importance.csv'') w1
      in say ''Feature importance information saved to models/feature_importance.csv'' w2)"

text \<open>Selection followed by saving: the name the save cell looks up is the one the
  selection took from the comparison table.\<close>

definition select_and_save ::
  "'m eval_result list \<Rightarrow> reduction \<Rightarrow> (string \<times> real) list \<Rightarrow> 'm world \<Rightarrow> exn + 'm world" where
  "select_and_save results red table w =
     bnd (comparison_df results) (\<lambda>df.
     bnd (select_best df) (\<lambda>(best_model_idx, name, best_f1).
     Inr (save_cell
            \<lparr>best_model_name = name,
             xgb_results = results ! 0, lgb_results = results ! 1,
             xgb_pca_results = results ! 2, lgb_pca_results = results ! 3,
             xgb_ae_results = results ! 4, lgb_ae_results = results ! 5,
             stacked_results = results ! 6,
             reduced = red, importance_table = table\<rparr> w)))"


section \<open>Concrete inputs\<close>

text \<open>Small inputs on which the definitions are evaluated in the properties below.\<close>

definition scored :: "nat \<Rightarrow> real \<Rightarrow> nat eval_result" where
  "scored tag s = \<lparr>model = tag, accuracy = s, precision = s, recall = s, f1 = s, auc = Some s\<rparr>"

definition seven_results :: "nat eval_result list" where
  "seven_results =
     [scored 0 0.80, scored 1 0.92, scored 2 0.85, scored 3 0.92,
      scored 4 0.50, scored 5 0.60, scored 6 0.70]"

definition toy_row :: "string \<Rightarrow> real \<Rightarrow> row" where
  "toy_row name s = mk_row name (scored 0 s)"

subsection \<open>Reference scoring routines and toy classifiers\<close>

text \<open>The usual definitions of the binary scores, for labels 0 and 1: enough to run the
  harness on a concrete input.\<close>

definition hits :: "labels \<Rightarrow> labels \<Rightarrow> nat \<Rightarrow> nat \<Rightarrow> nat" where
  "hits y_true y_pred t p = length (filter (\<lambda>(a, b). a = t \<and> b = p) (zip y_true y_pred))"

definition ratio :: "nat \<Rightarrow> nat \<Rightarrow> real" where
  "ratio a b = (if b = 0 then 0 else real a / real b)"

definition checked :: "labels \<Rightarrow> 'a list \<Rightarrow> 'b \<Rightarrow> exn + 'b" where
  "checked y_true other v =
     (if length y_true = length other then Inr v
      else Inl (Exn ValueError ''Found input variables with inconsistent numbers of samples''))"

definition pair_auc :: "labels \<Rightarrow> real list \<Rightarrow> real" where
  "pair_auc y_true y_prob =
     (let pos = map snd (filter (\<lambda>(t, s). t = 1) (zip y_true y_prob));
          neg = map snd (filter (\<lambda>(t, s). t \<noteq> 1) (zip y_true y_prob))
      in (\<Sum>s \<leftarrow> pos. \<Sum>u \<leftarrow> neg. if u < s then 1 else if u = s then 1 / 2 else 0)
         / real (length pos * length neg))"

definition ref_metrics :: sklearn_metrics where
  "ref_metrics =
     \<lparr>accuracy_score = (\<lambda>t p. checked t p
          (ratio (hits t p 0 0 + hits t p 1 1) (length t))),
      precision_score = (\<lambda>t p. checked t p (ratio (hits t p 1 1) (hits t p 1 1 + hits t p 0 1))),
      recall_score = (\<lambda>t p. checked t p (ratio (hits t p 1 1) (hits t p 1 1 + hits t p 1 0))),
      f1_score = (\<lambda>t p. checked t p
          (ratio (2 * hits t p 1 1) (2 * hits t p 1 1 + hits t p 0 1 + hits t p 1 0))),
      roc_auc_score = (\<lambda>t s.
          if 1 \<in> set t \<and> (\<exists>l \<in> set t. l \<noteq> 1) then checked t s (pair_auc t s)
          else Inl (Exn ValueError ''Only one class present in y_true'')),
      confusion_matrix = (\<lambda>t p. checked t p
          [[hits t p 0 0, hits t p 0 1], [hits t p 1 0, hits t p 1 1]])\<rparr>"

text \<open>A one-feature threshold classifier; its state is the threshold. Fitting puts the
  threshold at the mean of the feature.\<close>

definition stump :: "real classifier" where
  "stump =
     \<lparr>fit = (\<lambda>m X y.
          if X = [] then Inl (Exn ValueError ''Found array with 0 sample(s)'')
          else Inr (sum_list (map hd X) / real (length X))),
      predict = (\<lambda>m X. Inr (map (\<lambda>r. if m < hd r then 1 else 0) X)),
      predict_proba = Some (\<lambda>m X. Inr (map (\<lambda>r. if m < hd r then [1 / 4, 3 / 4] else [3 / 4, 1 / 4]) X))\<rparr>"

text \<open>The same classifier without a probability method; one whose probability method is
  there and delegates to a part that lacks it; one that returns a single column.\<close>

definition hard_stump :: "real classifier" where
  "hard_stump = stump\<lparr>predict_proba := None\<rparr>"

definition delegating_stump :: "real classifier" where
  "delegating_stump =
     stump\<lparr>predict_proba := Some (\<lambda>m X. Inl (Exn AttributeError ''object has no attribute predict_proba''))\<rparr>"

definition one_column_stump :: "real classifier" where
  "one_column_stump = stump\<lparr>predict_proba := Some (\<lambda>m X. Inr (map (\<lambda>r. [1]) X))\<rparr>"


definition toy_X_train :: matrix where "toy_X_train = [[1], [2], [3], [4]]"
definition toy_y_train :: labels where "toy_y_train = [0, 0, 1, 1]"
definition toy_X_test :: matrix where "toy_X_test = [[0], [5], [2], [3]]"
definition toy_y_test :: labels where "toy_y_test = [0, 1, 0, 1]"

subsection \<open>A stand-in reduction library and a toy data set\<close>

text \<open>The first \<open>k\<close> coordinate axes stand in for the principal axes, and fixed weights
  for the trained encoder (two hidden units, the bottleneck as wide as asked).\<close>

definition unit_axis :: "nat \<Rightarrow> nat \<Rightarrow> real list" where
  "unit_axis d i = map (\<lambda>j. if j = i then 1 else 0) [0..<d]"

definition toy_lib :: reduction_lib where
  "toy_lib =
     \<lparr>principal_axes = (\<lambda>k X. map (unit_axis (ncols X)) [0..<k]),
      train_encoder = (\<lambda>input_dim encoding_dim X T.
         \<lparr>enc_hidden = \<lparr>dense_kernel = replicate 2 (replicate input_dim 1), dense_bias = [0, 0]\<rparr>,
          enc_norm = \<lparr>bn_scale = [1, 1], bn_shift = [0, 0]\<rparr>,
          enc_bottleneck = \<lparr>dense_kernel = replicate encoding_dim [1, 1],
                            dense_bias = replicate encoding_dim 0\<rparr>\<rparr>)\<rparr>"

text \<open>Four features, 100 training rows and 30 test rows.\<close>

definition toy_train :: matrix where
  "toy_train = map (\<lambda>i. [real i, 1, 2, 3]) [0..<100]"

definition toy_test :: matrix where
  "toy_test = map (\<lambda>i. [real i, 0, 1, 5]) [0..<30]"

subsection \<open>Input artifacts\<close>

text \<open>A kernel that has run nothing yet; an unpickler that accepts one content only; a
  dictionary that lacks the test features.\<close>

definition fresh_kernel :: kernel where
  "fresh_kernel = \<lparr>globals = Map.empty, out_lines = []\<rparr>"

definition short_dict :: pyval where
  "short_dict = Dict [(''X_train'', Frame [[1, 2]]), (''y_train'', Series [1])]"

definition toy_unpickle :: "string \<Rightarrow> exn + pyval" where
  "toy_unpickle content =
     (if content = ''pickled'' then Inr short_dict
      else Inl (Exn UnpicklingError ''invalid load key''))"

subsection \<open>Results and a disk for the save cell\<close>

text \<open>Seven results in which the third configuration has the best F1 score.\<close>

definition pca_wins_results :: "nat eval_result list" where
  "pca_wins_results =
     [scored 0 0.80, scored 1 0.85, scored 2 0.92, scored 3 0.90,
      scored 4 0.50, scored 5 0.60, scored 6 0.91]"

definition empty_world :: "nat world" where
  "empty_world = \<lparr>fs_dirs = [], fs_files = [], printed = []\<rparr>"

definition toy_table :: "(string \<times> real) list" where
  "toy_table = [(''bmi'', 2), (''age'', 1)]"

definition toy_session :: "string \<Rightarrow> nat session" where
  "toy_session name =
     \<lparr>best_model_name = name,
      xgb_results = scored 0 0.80, lgb_results = scored 1 0.85,
      xgb_pca_results = scored 2 0.92, lgb_pca_results = scored 3 0.90,
      xgb_ae_results = scored 4 0.50, lgb_ae_results = scored 5 0.60,
      stacked_results = scored 6 0.91,
      reduced = reduce_dimensions toy_lib toy_train toy_test, importance_table = toy_table\<rparr>"

subsection \<open>A sampler, an explainer and attribution values\<close>

text \<open>A stand-in for the seeded generator: the first \<open>n\<close> positions of the population
  rotated by the seed. A stand-in for the explainer: half of each feature value.\<close>

definition rotating_choice :: "nat \<Rightarrow> nat \<Rightarrow> nat \<Rightarrow> nat list" where
  "rotating_choice seed N n = take n (rotate seed [0..<N])"

definition halving_explainer :: "matrix \<Rightarrow> exn + matrix" where
  "halving_explainer X = Inr (map (map (\<lambda>v. v / 2)) X)"

definition big_test :: matrix where
  "big_test = map (\<lambda>i. [real i, 1]) [0..<1200]"

definition two_features :: "string list" where
  "two_features = [''bmi'', ''age'']"

definition xgb_values :: matrix where
  "xgb_values = [[2, - 1], [- 2, 1]]"

definition lgb_values :: matrix where
  "lgb_values = [[1, - 3], [- 1, 3]]"

section \<open>Properties\<close>

subsection \<open>Loading\<close>

lemma load_try_body_open_fails:
  assumes "files ''data/preprocessed_data.pkl'' = None"
  shows "load_try_body files unpickle k =
           (Some (Exn FileNotFoundError ''No such file or directory: data/preprocessed_data.pkl''), k)"
  using assms by (simp add: load_try_body_def load_pickle_def)

lemma load_try_body_unpickle_fails:
  assumes "files ''data/preprocessed_data.pkl'' = Some f" and "unpickle f = Inl e"
  shows "load_try_body files unpickle k = (Some e, k)"
  using assms by (simp add: load_try_body_def load_pickle_def)

lemma load_cell_raises_only_base:
  assumes "load_cell files unpickle k = (Some e, k')"
  shows "\<not> is_Exception (kind e)"
  using assms
  by (auto simp: load_cell_def split: prod.splits option.splits if_splits)

lemma run_cells_Cons_ok:
  "c k = (None, k') \<Longrightarrow> run_cells (c # cells) k = run_cells cells k'"
  by (simp add: run_cells_def)

text \<open>
  Claim C8. Whatever exception of class \<open>Exception\<close> stops the body of the \<open>try\<close>, the
  cell does not raise: it prints the error message and ends, and the run goes on with
  the next cell. When the file is absent or cannot be unpickled, the state the next cell
  starts from has the two printed lines and the variables as they were before: a name
  that was unbound is still unbound (reading it raises \<open>NameError\<close>); nothing is put in
  its place.
\<close>

theorem load_failure_is_reported:
  "(load_try_body files unpickle (emit (Print ''Loading preprocessed data...'') k) = (Some e, k')
      \<and> is_Exception (kind e) \<longrightarrow>
        load_cell files unpickle k =
          (None, emit (Print (''Error loading preprocessed data: '' @ msg e)) k')
        \<and> run_cells (load_cell files unpickle # cells) k =
            run_cells cells (emit (Print (''Error loading preprocessed data: '' @ msg e)) k'))
   \<and> (files ''data/preprocessed_data.pkl'' = None
        \<or> (\<exists>f e. files ''data/preprocessed_data.pkl'' = Some f \<and> unpickle f = Inl e
                   \<and> is_Exception (kind e)) \<longrightarrow>
        (\<exists>e. load_cell files unpickle k =
                (None, k\<lparr>out_lines := out_lines k @
                            [Print ''Loading preprocessed data...'',
                             Print (''Error loading preprocessed data: '' @ msg e)]\<rparr>)
            \<and> run_cells (load_cell files unpickle # cells) k =
                run_cells cells (k\<lparr>out_lines := out_lines k @
                            [Print ''Loading preprocessed data...'',
                             Print (''Error loading preprocessed data: '' @ msg e)]\<rparr>)
            \<and> (\<forall>name. globals k name = None \<longrightarrow>
                  lookup_var name (snd (load_cell files unpickle k)) = Inl (Exn NameError name))))"
proof (intro conjI impI)
  assume h: "load_try_body files unpickle (emit (Print ''Loading preprocessed data...'') k) = (Some e, k')
      \<and> is_Exception (kind e)"
  then show lc: "load_cell files unpickle k =
          (None, emit (Print (''Error loading preprocessed data: '' @ msg e)) k')"
    by (simp add: load_cell_def)
  then show "run_cells (load_cell files unpickle # cells) k =
            run_cells cells (emit (Print (''Error loading preprocessed data: '' @ msg e)) k')"
    by (rule run_cells_Cons_ok)
next
  assume a: "files ''data/preprocessed_data.pkl'' = None
        \<or> (\<exists>f e. files ''data/preprocessed_data.pkl'' = Some f \<and> unpickle f = Inl e
                   \<and> is_Exception (kind e))"
  let ?k0 = "emit (Print ''Loading preprocessed data...'') k"
  from a obtain e where e: "load_try_body files unpickle ?k0 = (Some e, ?k0)" "is_Exception (kind e)"
    using load_try_body_open_fails[of files unpickle ?k0]
      load_try_body_unpickle_fails[of files _ unpickle _ ?k0]
    by (auto simp: is_Exception_def)
  let ?k1 = "k\<lparr>out_lines := out_lines k @
                            [Print ''Loading preprocessed data...'',
                             Print (''Error loading preprocessed data: '' @ msg e)]\<rparr>"
  have lc: "load_cell files unpickle k = (None, ?k1)"
    using e by (simp add: load_cell_def emit_def)
  have "run_cells (load_cell files unpickle # cells) k = run_cells cells ?k1"
    using lc by (rule run_cells_Cons_ok)
  moreover have "\<forall>name. globals k name = None \<longrightarrow>
                  lookup_var name (snd (load_cell files unpickle k)) = Inl (Exn NameError name)"
    by (simp add: lc lookup_var_def)
  ultimately show "\<exists>e. load_cell files unpickle k =
                (None, k\<lparr>out_lines := out_lines k @
                            [Print ''Loading preprocessed data...'',
                             Print (''Error loading preprocessed data: '' @ msg e)]\<rparr>)
            \<and> run_cells (load_cell files unpickle # cells) k =
                run_cells cells (k\<lparr>out_lines := out_lines k @
                            [Print ''Loading preprocessed data...'',
                             Print (''Error loading preprocessed data: '' @ msg e)]\<rparr>)
            \<and> (\<forall>name. globals k name = None \<longrightarrow>
                  lookup_var name (snd (load_cell files unpickle k)) = Inl (Exn NameError name))"
    using lc by blast
qed

theorem load_failure_is_reported_witness:
  "fst (load_cell Map.empty toy_unpickle fresh_kernel) = None
   \<and> out_lines (snd (load_cell Map.empty toy_unpickle fresh_kernel)) =
       [Print ''Loading preprocessed data...'',
        Print ''Error loading preprocessed data: No such file or directory: data/preprocessed_data.pkl'']
   \<and> lookup_var ''X_train'' (snd (load_cell Map.empty toy_unpickle fresh_kernel))
       = Inl (Exn NameError ''X_train'')
   \<and> fst (load_cell [''data/preprocessed_data.pkl'' \<mapsto> ''garbage''] toy_unpickle fresh_kernel) = None
   \<and> out_lines (snd (load_cell [''data/preprocessed_data.pkl'' \<mapsto> ''garbage''] toy_unpickle fresh_kernel)) =
       [Print ''Loading preprocessed data...'',
        Print ''Error loading preprocessed data: invalid load key'']
   \<and> fst (load_cell [''data/preprocessed_data.pkl'' \<mapsto> ''pickled''] toy_unpickle fresh_kernel) = None
   \<and> out_lines (snd (load_cell [''data/preprocessed_data.pkl'' \<mapsto> ''pickled''] toy_unpickle fresh_kernel)) =
       [Print ''Loading preprocessed data...'', Print ''Error loading preprocessed data: X_test'']
   \<and> lookup_var ''X_test'' (snd (load_cell [''data/preprocessed_data.pkl'' \<mapsto> ''pickled''] toy_unpickle fresh_kernel))
       = Inl (Exn NameError ''X_test'')"
proof -
  let ?absent = "Map.empty :: string \<rightharpoonup> string"
  let ?garbage = "[''data/preprocessed_data.pkl'' \<mapsto> ''garbage'']"
  let ?short = "[''data/preprocessed_data.pkl'' \<mapsto> ''pickled'']"
  let ?fnf = "Exn FileNotFoundError ''No such file or directory: data/preprocessed_data.pkl''"
  let ?bad = "Exn UnpicklingError ''invalid load key''"
  let ?k0 = "emit (Print ''Loading preprocessed data...'') fresh_kernel"
  have a0: "load_try_body ?absent toy_unpickle ?k0 = (Some ?fnf, ?k0) \<and> is_Exception (kind ?fnf)"
    by (simp add: load_try_body_def load_pickle_def is_Exception_def)
  have a: "load_cell ?absent toy_unpickle fresh_kernel =
      (None, emit (Print (''Error loading preprocessed data: '' @ msg ?fnf)) ?k0)"
    using load_failure_is_reported[of ?absent toy_unpickle fresh_kernel ?fnf ?k0, THEN conjunct1] a0
    by blast
  have g0: "load_try_body ?garbage toy_unpickle ?k0 = (Some ?bad, ?k0) \<and> is_Exception (kind ?bad)"
    by (simp add: load_try_body_def load_pickle_def is_Exception_def toy_unpickle_def)
  have g: "load_cell ?garbage toy_unpickle fresh_kernel =
      (None, emit (Print (''Error loading preprocessed data: '' @ msg ?bad)) ?k0)"
    using load_failure_is_reported[of ?garbage toy_unpickle fresh_kernel ?bad ?k0, THEN conjunct1] g0
    by blast
  let ?k2 = "?k0\<lparr>globals := [''preprocessed_data'' \<mapsto> short_dict, ''X_train'' \<mapsto> Frame [[1, 2]]]\<rparr>"
  let ?ke = "Exn KeyError ''X_test''"
  have s0: "load_try_body ?short toy_unpickle ?k0 = (Some ?ke, ?k2) \<and> is_Exception (kind ?ke)"
    by (simp add: load_try_body_def load_pickle_def assign_item_def lookup_var_def subscript_def
          is_Exception_def toy_unpickle_def short_dict_def emit_def fresh_kernel_def)
  have s: "load_cell ?short toy_unpickle fresh_kernel =
      (None, emit (Print (''Error loading preprocessed data: '' @ msg ?ke)) ?k2)"
    using load_failure_is_reported[of ?short toy_unpickle fresh_kernel ?ke ?k2, THEN conjunct1] s0
    by blast
  have none: "globals fresh_kernel ''X_train'' = None" by (simp add: fresh_kernel_def)
  have absent: "?absent ''data/preprocessed_data.pkl'' = None
        \<or> (\<exists>f e. ?absent ''data/preprocessed_data.pkl'' = Some f \<and> toy_unpickle f = Inl e
                   \<and> is_Exception (kind e))"
    by simp
  from load_failure_is_reported[of ?absent toy_unpickle fresh_kernel _ _ "[]", THEN conjunct2, THEN mp, OF absent]
  have unbound: "lookup_var ''X_train'' (snd (load_cell ?absent toy_unpickle fresh_kernel))
       = Inl (Exn NameError ''X_train'')"
    using none by blast
  show ?thesis
    using unbound unfolding a g s by (simp add: emit_def fresh_kernel_def lookup_var_def)
qed

subsection \<open>Dimensionality reduction\<close>

lemma pca_round_eq:
  "pca_round lib n X_train X_test cs =
     (fst (pca_fit_transform (principal_axes lib) (PCA n) X_train),
      map (pca_project (fst (pca_fit_transform (principal_axes lib) (PCA n) X_train))) X_train,
      map (pca_project (fst (pca_fit_transform (principal_axes lib) (PCA n) X_train))) X_test,
      cs @ [PCA_fit_transform n X_train, PCA_transform X_test])"
  by (simp add: pca_round_def pca_fit_transform_def pca_transform_def Let_def)

lemma reduce_dimensions_eq:
  "reduce_dimensions lib X_train X_test =
     \<lparr>pca = fst (pca_fit_transform (principal_axes lib) (PCA 7) X_train),
      X_train_pca = map (pca_project (fst (pca_fit_transform (principal_axes lib) (PCA 7) X_train))) X_train,
      X_test_pca = map (pca_project (fst (pca_fit_transform (principal_axes lib) (PCA 7) X_train))) X_test,
      encoder_model = train_encoder lib (ncols X_train) 7 X_train X_train,
      X_train_encoded = map (encode (train_encoder lib (ncols X_train) 7 X_train X_train)) X_train,
      X_test_encoded = map (encode (train_encoder lib (ncols X_train) 7 X_train X_train)) X_test,
      calls = [PCA_fit_transform 5 X_train, PCA_transform X_test,
               PCA_fit_transform 7 X_train, PCA_transform X_test,
               PCA_fit_transform 9 X_train, PCA_transform X_test,
               PCA_fit_transform 7 X_train, PCA_transform X_test,
               Autoencoder_fit X_train X_train,
               Encoder_predict X_train, Encoder_predict X_test]\<rparr>"
  by (simp add: reduce_dimensions_def pca_round_eq encoder_predict_def Let_def)

lemma pca_project_length: "length (pca_project p x) = length (pca_components p)"
  by (simp add: pca_project_def)

text \<open>
  Claim C6. After the two reduction cells the projector is the one fitted on the training
  matrix with 7 components and the encoder is the one trained on the training matrix:
  neither depends on the test matrix. Transforming or predicting returns the object
  unchanged, the test representations are the frozen objects applied to the test matrix,
  and every fitting call in the cells' call list is given the training matrix.
\<close>

theorem reduction_fits_on_training_only:
  "pca (reduce_dimensions lib X_train X_test) = fst (pca_fit_transform (principal_axes lib) (PCA 7) X_train)
   \<and> encoder_model (reduce_dimensions lib X_train X_test) = train_encoder lib (ncols X_train) 7 X_train X_train
   \<and> pca (reduce_dimensions lib X_train X_test') = pca (reduce_dimensions lib X_train X_test)
   \<and> encoder_model (reduce_dimensions lib X_train X_test') = encoder_model (reduce_dimensions lib X_train X_test)
   \<and> fst (pca_transform p X) = p
   \<and> fst (encoder_predict e X) = e
   \<and> X_test_pca (reduce_dimensions lib X_train X_test)
        = snd (pca_transform (pca (reduce_dimensions lib X_train X_test)) X_test)
   \<and> X_test_encoded (reduce_dimensions lib X_train X_test)
        = snd (encoder_predict (encoder_model (reduce_dimensions lib X_train X_test)) X_test)
   \<and> list_all (\<lambda>c. fit_data c = None \<or> fit_data c = Some X_train)
        (calls (reduce_dimensions lib X_train X_test))"
  by (simp add: reduce_dimensions_eq pca_transform_def encoder_predict_def fit_data_def)

text \<open>
  Claim C7. Each of the four derived matrices has as many rows as its source, and its
  row \<open>i\<close> is the projection (or encoding) of row \<open>i\<close> of the source. With a projector of
  two axes and a test matrix of 30 rows, the transformed test matrix has 30 rows of
  length 2.
\<close>

theorem derived_rows_follow_source:
  "length (X_train_pca (reduce_dimensions lib X_train X_test)) = length X_train
   \<and> length (X_test_pca (reduce_dimensions lib X_train X_test)) = length X_test
   \<and> length (X_train_encoded (reduce_dimensions lib X_train X_test)) = length X_train
   \<and> length (X_test_encoded (reduce_dimensions lib X_train X_test)) = length X_test
   \<and> (\<forall>i < length X_train.
         X_train_pca (reduce_dimensions lib X_train X_test) ! i
           = pca_project (pca (reduce_dimensions lib X_train X_test)) (X_train ! i)
       \<and> X_train_encoded (reduce_dimensions lib X_train X_test) ! i
           = encode (encoder_model (reduce_dimensions lib X_train X_test)) (X_train ! i))
   \<and> (\<forall>i < length X_test.
         X_test_pca (reduce_dimensions lib X_train X_test) ! i
           = pca_project (pca (reduce_dimensions lib X_train X_test)) (X_test ! i)
       \<and> X_test_encoded (reduce_dimensions lib X_train X_test) ! i
           = encode (encoder_model (reduce_dimensions lib X_train X_test)) (X_test ! i))
   \<and> length (snd (pca_transform p X)) = length X
   \<and> (\<forall>i < length X. snd (pca_transform p X) ! i = pca_project p (X ! i)
                       \<and> length (snd (pca_transform p X) ! i) = length (pca_components p))
   \<and> (length X_test = 30 \<and> length (principal_axes lib 2 X_train) = 2 \<longrightarrow>
        length (fst (snd (snd (pca_round lib 2 X_train X_test [])))) = 30
        \<and> list_all (\<lambda>row. length row = 2) (fst (snd (snd (pca_round lib 2 X_train X_test [])))))"
  by (simp add: reduce_dimensions_eq pca_round_eq pca_transform_def pca_project_length
        pca_fit_transform_def PCA_def list_all_iff Let_def)

theorem reduction_fits_on_training_only_witness:
  "pca (reduce_dimensions toy_lib toy_train []) = pca (reduce_dimensions toy_lib toy_train toy_test)
   \<and> encoder_model (reduce_dimensions toy_lib toy_train [])
       = encoder_model (reduce_dimensions toy_lib toy_train toy_test)
   \<and> n_components (pca (reduce_dimensions toy_lib toy_train toy_test)) = 7
   \<and> pca_components (pca (reduce_dimensions toy_lib toy_train toy_test))
       = [[1, 0, 0, 0], [0, 1, 0, 0], [0, 0, 1, 0], [0, 0, 0, 1],
          [0, 0, 0, 0], [0, 0, 0, 0], [0, 0, 0, 0]]
   \<and> map fit_data (calls (reduce_dimensions toy_lib toy_train toy_test))
       = [Some toy_train, None, Some toy_train, None, Some toy_train, None, Some toy_train, None,
          Some toy_train, None, None]"
proof -
  note inst = reduction_fits_on_training_only[of toy_lib toy_train toy_test "[]"]
  have a: "pca (reduce_dimensions toy_lib toy_train []) = pca (reduce_dimensions toy_lib toy_train toy_test)"
    using inst by blast
  have b: "encoder_model (reduce_dimensions toy_lib toy_train [])
       = encoder_model (reduce_dimensions toy_lib toy_train toy_test)"
    using inst by blast
  have c: "pca (reduce_dimensions toy_lib toy_train toy_test)
       = fst (pca_fit_transform (principal_axes toy_lib) (PCA 7) toy_train)"
    using inst by blast
  have nc: "ncols toy_train = 4"
    by (simp add: toy_train_def ncols_def upt_conv_Cons)
  have d: "n_components (pca (reduce_dimensions toy_lib toy_train toy_test)) = 7"
    unfolding c by (simp add: pca_fit_transform_def PCA_def Let_def)
  have e: "pca_components (pca (reduce_dimensions toy_lib toy_train toy_test))
       = [[1, 0, 0, 0], [0, 1, 0, 0], [0, 0, 1, 0], [0, 0, 0, 1],
          [0, 0, 0, 0], [0, 0, 0, 0], [0, 0, 0, 0]]"
    unfolding c by (simp add: pca_fit_transform_def PCA_def Let_def toy_lib_def nc unit_axis_def upt_conv_Cons)
  have f: "map fit_data (calls (reduce_dimensions toy_lib toy_train toy_test))
       = [Some toy_train, None, Some toy_train, None, Some toy_train, None, Some toy_train, None,
          Some toy_train, None, None]"
    by (simp add: reduce_dimensions_eq fit_data_def)
  show ?thesis using a b d e f by blast
qed

theorem derived_rows_follow_source_witness:
  "length toy_test = 30 \<and> length (principal_axes toy_lib 2 toy_train) = 2
   \<and> length (fst (snd (snd (pca_round toy_lib 2 toy_train toy_test [])))) = 30
   \<and> list_all (\<lambda>row. length row = 2) (fst (snd (snd (pca_round toy_lib 2 toy_train toy_test []))))
   \<and> length (X_test_pca (reduce_dimensions toy_lib toy_train toy_test)) = 30
   \<and> length (X_test_encoded (reduce_dimensions toy_lib toy_train toy_test)) = 30
   \<and> length (X_train_pca (reduce_dimensions toy_lib toy_train toy_test)) = 100
   \<and> X_test_encoded (reduce_dimensions toy_lib toy_train toy_test) ! 4
       = encode (encoder_model (reduce_dimensions toy_lib toy_train toy_test)) (toy_test ! 4)"
proof -
  note inst = derived_rows_follow_source[of toy_lib toy_train toy_test "PCA 2" "[]"]
  have h: "length toy_test = 30 \<and> length (principal_axes toy_lib 2 toy_train) = 2"
    by (simp add: toy_test_def toy_lib_def)
  have l: "length toy_train = 100" by (simp add: toy_train_def)
  have four: "(4::nat) < length toy_test" using h by simp
  from inst h have s: "length (fst (snd (snd (pca_round toy_lib 2 toy_train toy_test [])))) = 30
     \<and> list_all (\<lambda>row. length row = 2) (fst (snd (snd (pca_round toy_lib 2 toy_train toy_test []))))"
    by blast
  from inst have "length (X_test_pca (reduce_dimensions toy_lib toy_train toy_test)) = length toy_test"
    "length (X_test_encoded (reduce_dimensions toy_lib toy_train toy_test)) = length toy_test"
    "length (X_train_pca (reduce_dimensions toy_lib toy_train toy_test)) = length toy_train"
    by blast+
  moreover from inst four have "X_test_encoded (reduce_dimensions toy_lib toy_train toy_test) ! 4
       = encode (encoder_model (reduce_dimensions toy_lib toy_train toy_test)) (toy_test ! 4)"
    by blast
  ultimately show ?thesis using h l s by simp
qed

subsection \<open>The evaluation harness\<close>

lemmas harness_defs = evaluate_model_def bnd_def auc_try_body_def except_AttributeError_def
  getattr_predict_proba_def column_def report_def

lemmas toy_defs = ref_metrics_def stump_def hard_stump_def delegating_stump_def one_column_stump_def
  toy_X_train_def toy_X_test_def toy_y_train_def toy_y_test_def checked_def hits_def ratio_def pair_auc_def

lemma evaluate_model_Inr:
  assumes "evaluate_model lib cls m X_train X_test y_train y_test name = Inr (b, shown)"
  shows "\<exists>y_pred cm. fit cls m X_train y_train = Inr (model b)
         \<and> predict cls (model b) X_test = Inr y_pred
         \<and> accuracy_score lib y_test y_pred = Inr (accuracy b)
         \<and> precision_score lib y_test y_pred = Inr (precision b)
         \<and> recall_score lib y_test y_pred = Inr (recall b)
         \<and> f1_score lib y_test y_pred = Inr (f1 b)
         \<and> except_AttributeError (auc_try_body lib cls (model b) X_test y_test) = Inr (auc b)
         \<and> confusion_matrix lib y_test y_pred = Inr cm
         \<and> shown = report name (accuracy b) (precision b) (recall b) (f1 b) (auc b)
                     @ [Heatmap cm (name @ '' Confusion Matrix'')]"
  using assms
  by (auto simp: evaluate_model_def bnd_def split: sum.splits)

lemma evaluate_model_steps:
  assumes "fit cls m X_train y_train = Inr fitted"
    and "predict cls fitted X_test = Inr y_pred"
    and "accuracy_score lib y_test y_pred = Inr a"
    and "precision_score lib y_test y_pred = Inr p"
    and "recall_score lib y_test y_pred = Inr r"
    and "f1_score lib y_test y_pred = Inr f"
  shows "evaluate_model lib cls m X_train X_test y_train y_test name =
         bnd (except_AttributeError (auc_try_body lib cls fitted X_test y_test)) (\<lambda>au.
         bnd (confusion_matrix lib y_test y_pred) (\<lambda>cm.
         Inr (\<lparr>model = fitted, accuracy = a, precision = p, recall = r, f1 = f, auc = au\<rparr>,
              report name a p r f au @ [Heatmap cm (name @ '' Confusion Matrix'')])))"
  using assms by (simp add: evaluate_model_def bnd_def)

lemma except_AttributeError_None:
  "except_AttributeError r = Inr None \<longleftrightarrow> (\<exists>e. r = Inl e \<and> kind e = AttributeError)"
  by (auto simp: except_AttributeError_def split: sum.splits)

lemma auc_try_body_unexposed:
  "predict_proba cls = None \<Longrightarrow>
   auc_try_body lib cls m X y = Inl (Exn AttributeError ''predict_proba'')"
  by (simp add: auc_try_body_def getattr_predict_proba_def bnd_def)


text \<open>
  Claim C2, as amended. In a returned result the AUC is absent exactly when the guarded
  block (the lookup and call of the probability method, the column selection, the AUC
  routine) raised an \<open>AttributeError\<close>. A classifier without a probability method always
  gives an absent AUC, so a present AUC means the method is there; the four other scores
  are those the scoring routines returned. When the method is missing and the steps
  before the guarded block succeed, the run returns (it does not fail), with AUC
  \<open>None\<close> and the four scores in place.
\<close>

theorem auc_presence:
  "(evaluate_model lib cls m X_train X_test y_train y_test name = Inr (b, shown) \<longrightarrow>
      (auc b = None \<longleftrightarrow>
         (\<exists>e. auc_try_body lib cls (model b) X_test y_test = Inl e \<and> kind e = AttributeError))
      \<and> (predict_proba cls = None \<longrightarrow> auc b = None)
      \<and> (\<exists>y_pred. predict cls (model b) X_test = Inr y_pred
            \<and> accuracy_score lib y_test y_pred = Inr (accuracy b)
            \<and> precision_score lib y_test y_pred = Inr (precision b)
            \<and> recall_score lib y_test y_pred = Inr (recall b)
            \<and> f1_score lib y_test y_pred = Inr (f1 b)))
   \<and> (predict_proba cls = None \<and> fit cls m X_train y_train = Inr fitted
        \<and> predict cls fitted X_test = Inr y_pred
        \<and> accuracy_score lib y_test y_pred = Inr a \<and> precision_score lib y_test y_pred = Inr p
        \<and> recall_score lib y_test y_pred = Inr r \<and> f1_score lib y_test y_pred = Inr f
        \<and> confusion_matrix lib y_test y_pred = Inr cm \<longrightarrow>
      evaluate_model lib cls m X_train X_test y_train y_test name =
        Inr (\<lparr>model = fitted, accuracy = a, precision = p, recall = r, f1 = f, auc = None\<rparr>,
             report name a p r f None @ [Heatmap cm (name @ '' Confusion Matrix'')]))"
proof (intro conjI impI)
  assume ev: "evaluate_model lib cls m X_train X_test y_train y_test name = Inr (b, shown)"
  from evaluate_model_Inr[OF ev] obtain y_pred cm where
    st: "predict cls (model b) X_test = Inr y_pred"
        "accuracy_score lib y_test y_pred = Inr (accuracy b)"
        "precision_score lib y_test y_pred = Inr (precision b)"
        "recall_score lib y_test y_pred = Inr (recall b)"
        "f1_score lib y_test y_pred = Inr (f1 b)"
        "except_AttributeError (auc_try_body lib cls (model b) X_test y_test) = Inr (auc b)"
    by blast
  show "auc b = None \<longleftrightarrow>
         (\<exists>e. auc_try_body lib cls (model b) X_test y_test = Inl e \<and> kind e = AttributeError)"
    using st(6) except_AttributeError_None[of "auc_try_body lib cls (model b) X_test y_test"]
    by auto
  show "\<exists>y_pred. predict cls (model b) X_test = Inr y_pred
            \<and> accuracy_score lib y_test y_pred = Inr (accuracy b)
            \<and> precision_score lib y_test y_pred = Inr (precision b)
            \<and> recall_score lib y_test y_pred = Inr (recall b)
            \<and> f1_score lib y_test y_pred = Inr (f1 b)"
    using st by blast
  assume "predict_proba cls = None"
  then show "auc b = None"
    using st(6) by (simp add: auc_try_body_unexposed except_AttributeError_def)
next
  assume h: "predict_proba cls = None \<and> fit cls m X_train y_train = Inr fitted
        \<and> predict cls fitted X_test = Inr y_pred
        \<and> accuracy_score lib y_test y_pred = Inr a \<and> precision_score lib y_test y_pred = Inr p
        \<and> recall_score lib y_test y_pred = Inr r \<and> f1_score lib y_test y_pred = Inr f
        \<and> confusion_matrix lib y_test y_pred = Inr cm"
  then have "evaluate_model lib cls m X_train X_test y_train y_test name =
         bnd (except_AttributeError (auc_try_body lib cls fitted X_test y_test)) (\<lambda>au.
         bnd (confusion_matrix lib y_test y_pred) (\<lambda>cm.
         Inr (\<lparr>model = fitted, accuracy = a, precision = p, recall = r, f1 = f, auc = au\<rparr>,
              report name a p r f au @ [Heatmap cm (name @ '' Confusion Matrix'')])))"
    by (intro evaluate_model_steps) simp_all
  then show "evaluate_model lib cls m X_train X_test y_train y_test name =
        Inr (\<lparr>model = fitted, accuracy = a, precision = p, recall = r, f1 = f, auc = None\<rparr>,
             report name a p r f None @ [Heatmap cm (name @ '' Confusion Matrix'')])"
    using h by (simp add: auc_try_body_unexposed except_AttributeError_def bnd_def)
qed

theorem auc_presence_witness:
  "predict_proba hard_stump = None
   \<and> evaluate_model ref_metrics hard_stump 0 toy_X_train toy_X_test toy_y_train toy_y_test ''Stump'' =
       Inr (\<lparr>model = 5 / 2, accuracy = 1, precision = 1, recall = 1, f1 = 1, auc = None\<rparr>,
            report ''Stump'' 1 1 1 1 None @ [Heatmap [[2, 0], [0, 2]] ''Stump Confusion Matrix''])
   \<and> auc_try_body ref_metrics hard_stump (5 / 2) toy_X_test toy_y_test
       = Inl (Exn AttributeError ''predict_proba'')
   \<and> predict hard_stump (5 / 2) toy_X_test = Inr [0, 1, 0, 1]
   \<and> f1_score ref_metrics toy_y_test [0, 1, 0, 1] = Inr 1"
proof -
  have pre: "predict_proba hard_stump = None \<and> fit hard_stump 0 toy_X_train toy_y_train = Inr (5 / 2)
        \<and> predict hard_stump (5 / 2) toy_X_test = Inr [0, 1, 0, 1]
        \<and> accuracy_score ref_metrics toy_y_test [0, 1, 0, 1] = Inr 1
        \<and> precision_score ref_metrics toy_y_test [0, 1, 0, 1] = Inr 1
        \<and> recall_score ref_metrics toy_y_test [0, 1, 0, 1] = Inr 1
        \<and> f1_score ref_metrics toy_y_test [0, 1, 0, 1] = Inr 1
        \<and> confusion_matrix ref_metrics toy_y_test [0, 1, 0, 1] = Inr [[2, 0], [0, 2]]"
    by (simp add: toy_defs)
  note inst = auc_presence[of ref_metrics hard_stump 0 toy_X_train toy_X_test toy_y_train toy_y_test "''Stump''"
      "\<lparr>model = 5 / 2, accuracy = 1, precision = 1, recall = 1, f1 = 1, auc = None\<rparr>"
      "report ''Stump'' 1 1 1 1 None @ [Heatmap [[2, 0], [0, 2]] (''Stump'' @ '' Confusion Matrix'')]"
      "5 / 2" "[0, 1, 0, 1]" 1 1 1 1 "[[2, 0], [0, 2]]"]
  note ev = inst[THEN conjunct2, THEN mp, OF pre]
  note absent = inst[THEN conjunct1, THEN mp, OF ev, THEN conjunct1]
  have "\<exists>e. auc_try_body ref_metrics hard_stump (5 / 2) toy_X_test toy_y_test = Inl e
      \<and> kind e = AttributeError"
    using absent by simp
  then have "auc_try_body ref_metrics hard_stump (5 / 2) toy_X_test toy_y_test
       = Inl (Exn AttributeError ''predict_proba'')"
    using pre by (simp add: auc_try_body_unexposed)
  moreover have "evaluate_model ref_metrics hard_stump 0 toy_X_train toy_X_test toy_y_train toy_y_test ''Stump'' =
       Inr (\<lparr>model = 5 / 2, accuracy = 1, precision = 1, recall = 1, f1 = 1, auc = None\<rparr>,
            report ''Stump'' 1 1 1 1 None @ [Heatmap [[2, 0], [0, 2]] ''Stump Confusion Matrix''])"
    using ev by simp
  ultimately show ?thesis using pre by blast
qed

text \<open>
  Claim C2 as stated fails: "AUC present if and only if the classifier exposes a
  probability method". \<open>delegating_stump\<close> has the method, the call raises
  \<open>AttributeError\<close>, the handler turns it into \<open>None\<close>, and the result is returned
  with an absent AUC.
\<close>

theorem auc_absent_though_exposed:
  "predict_proba delegating_stump \<noteq> None
   \<and> evaluate_model ref_metrics delegating_stump 0 toy_X_train toy_X_test toy_y_train toy_y_test ''Stump'' =
       Inr (\<lparr>model = 5 / 2, accuracy = 1, precision = 1, recall = 1, f1 = 1, auc = None\<rparr>,
            report ''Stump'' 1 1 1 1 None @ [Heatmap [[2, 0], [0, 2]] ''Stump Confusion Matrix''])"
  by (simp add: harness_defs toy_defs)







subsection \<open>Model selection\<close>

lemma idxmax_loop_first_max:
  assumes "best < length pre" "i = length pre" "pre ! best = bv"
    and "\<forall>j < length pre. pre ! j \<le> bv" and "\<forall>j < best. pre ! j < bv"
  shows "idxmax_loop xs i best bv < length (pre @ xs)
       \<and> (\<forall>j < length (pre @ xs). (pre @ xs) ! j \<le> (pre @ xs) ! idxmax_loop xs i best bv)
       \<and> (\<forall>j < idxmax_loop xs i best bv. (pre @ xs) ! j < (pre @ xs) ! idxmax_loop xs i best bv)"
  using assms
proof (induction xs arbitrary: pre i best bv)
  case Nil
  then show ?case by simp
next
  case (Cons x xs)
  let ?pre = "pre @ [x]"
  show ?case
  proof (cases "bv < x")
    case True
    have a: "i < length ?pre" using Cons.prems by simp
    have b: "Suc i = length ?pre" using Cons.prems by simp
    have c: "?pre ! i = x" using Cons.prems by simp
    have d: "\<forall>j < length ?pre. ?pre ! j \<le> x"
      using Cons.prems True by (auto simp: nth_append less_Suc_eq intro: less_imp_le order_trans)
    have e: "\<forall>j < i. ?pre ! j < x"
      using Cons.prems True by (auto simp: nth_append intro: le_less_trans)
    from Cons.IH[OF a b c d e] True show ?thesis by simp
  next
    case False
    have a: "best < length ?pre" using Cons.prems by simp
    have b: "Suc i = length ?pre" using Cons.prems by simp
    have c: "?pre ! best = bv" using Cons.prems by (simp add: nth_append)
    have d: "\<forall>j < length ?pre. ?pre ! j \<le> bv"
      using Cons.prems False by (auto simp: nth_append less_Suc_eq)
    have e: "\<forall>j < best. ?pre ! j < bv"
      using Cons.prems by (auto simp: nth_append)
    from Cons.IH[OF a b c d e] False show ?thesis by simp
  qed
qed

lemma idxmax_first_max:
  assumes "xs \<noteq> []"
  shows "\<exists>i. idxmax xs = Inr i \<and> i < length xs
           \<and> (\<forall>j < length xs. xs ! j \<le> xs ! i) \<and> (\<forall>j < i. xs ! j < xs ! i)"
proof -
  obtain x rest where xs: "xs = x # rest" using assms by (cases xs) auto
  have "idxmax_loop rest 1 0 x < length ([x] @ rest)
       \<and> (\<forall>j < length ([x] @ rest). ([x] @ rest) ! j \<le> ([x] @ rest) ! idxmax_loop rest 1 0 x)
       \<and> (\<forall>j < idxmax_loop rest 1 0 x. ([x] @ rest) ! j < ([x] @ rest) ! idxmax_loop rest 1 0 x)"
    by (rule idxmax_loop_first_max) simp_all
  then show ?thesis by (simp add: xs idxmax_def)
qed

lemma select_best_first_max:
  assumes "df \<noteq> []"
  shows "\<exists>i. select_best df = Inr (i, Model (df ! i), F1_Score (df ! i)) \<and> i < length df
           \<and> (\<forall>j < length df. F1_Score (df ! j) \<le> F1_Score (df ! i))
           \<and> (\<forall>j < i. F1_Score (df ! j) < F1_Score (df ! i))"
proof -
  have ne: "map F1_Score df \<noteq> []" using assms by simp
  from idxmax_first_max[OF ne] obtain i where
    i: "idxmax (map F1_Score df) = Inr i" "i < length df"
       "\<forall>j < length df. map F1_Score df ! j \<le> map F1_Score df ! i"
       "\<forall>j < i. map F1_Score df ! j < map F1_Score df ! i"
    by auto
  have "select_best df = Inr (i, Model (df ! i), F1_Score (df ! i))"
    by (simp add: select_best_def bnd_def i(1))
  moreover have "\<forall>j < length df. F1_Score (df ! j) \<le> F1_Score (df ! i)"
    using i(2,3) by simp
  moreover have "\<forall>j < i. F1_Score (df ! j) < F1_Score (df ! i)"
    using i(2,4) by simp
  ultimately show ?thesis using i(2) by blast
qed

lemma comparison_df_rows:
  assumes "length results = 7"
  shows "comparison_df results = Inr (map2 mk_row models results)"
    and "length (map2 mk_row models results) = 7"
    and "\<And>j. j < 7 \<Longrightarrow> map2 mk_row models results ! j = mk_row (models ! j) (results ! j)"
  using assms by (simp_all add: comparison_df_def models_def)

lemma map2_mk_row_columns:
  assumes "length names = length results"
  shows "map Model (map2 mk_row names results) = names"
    and "map F1_Score (map2 mk_row names results) = map f1 results"
  using assms by (induction names results rule: list_induct2) (simp_all add: mk_row_def)

text \<open>
  Claim C1. On any comparison table with at least one row the selection returns a
  position whose F1 score is the largest of the table, and no earlier position has that
  score: the first occurrence wins. For any reordering of the rows the selected F1 score
  is the same, and when the maximum is attained by one row only, the selected row is that
  row. The notebook's table has the seven configurations, in the order of \<open>models\<close>,
  each with the F1 score of its result.
\<close>

theorem best_model_selection:
  fixes df :: "row list"
  assumes "df \<noteq> []"
  shows "\<exists>i. select_best df = Inr (i, Model (df ! i), F1_Score (df ! i)) \<and> i < length df
           \<and> (\<forall>j < length df. F1_Score (df ! j) \<le> F1_Score (df ! i))
           \<and> (\<forall>j < i. F1_Score (df ! j) < F1_Score (df ! i))
           \<and> (\<forall>df'. mset df' = mset df \<longrightarrow>
                 (\<exists>i'. select_best df' = Inr (i', Model (df' ! i'), F1_Score (df' ! i'))
                    \<and> F1_Score (df' ! i') = F1_Score (df ! i)
                    \<and> ((\<forall>r \<in> set df. F1_Score r = F1_Score (df ! i) \<longrightarrow> r = df ! i)
                          \<longrightarrow> df' ! i' = df ! i)))
           \<and> (\<forall>results :: 'm eval_result list. comparison_df results = Inr df \<longrightarrow>
                 length df = 7 \<and> map Model df = models \<and> map F1_Score df = map f1 results)"
proof -
  have seven: "length df = 7 \<and> map Model df = models \<and> map F1_Score df = map f1 results"
    if c: "comparison_df results = Inr df" for results :: "'m eval_result list"
  proof -
    have len: "length results = 7" and df: "df = map2 mk_row models results"
      using c by (auto simp: comparison_df_def models_def split: if_splits)
    have l: "length models = length results" using len by (simp add: models_def)
    have "map Model df = models" and "map F1_Score df = map f1 results"
      unfolding df using map2_mk_row_columns[OF l] by simp_all
    moreover have "length df = 7" using len l by (simp add: df)
    ultimately show ?thesis by simp
  qed
  from select_best_first_max[OF assms] obtain i where
    i: "select_best df = Inr (i, Model (df ! i), F1_Score (df ! i))" "i < length df"
       "\<forall>j < length df. F1_Score (df ! j) \<le> F1_Score (df ! i)"
       "\<forall>j < i. F1_Score (df ! j) < F1_Score (df ! i)"
    by blast
  have perm: "\<exists>i'. select_best df' = Inr (i', Model (df' ! i'), F1_Score (df' ! i'))
                    \<and> F1_Score (df' ! i') = F1_Score (df ! i)
                    \<and> ((\<forall>r \<in> set df. F1_Score r = F1_Score (df ! i) \<longrightarrow> r = df ! i)
                          \<longrightarrow> df' ! i' = df ! i)"
    if p: "mset df' = mset df" for df'
  proof -
    have sets: "set df' = set df" using p by (metis set_mset_mset)
    have ne': "df' \<noteq> []" using sets assms by auto
    from select_best_first_max[OF ne'] obtain i' where
      i': "select_best df' = Inr (i', Model (df' ! i'), F1_Score (df' ! i'))" "i' < length df'"
          "\<forall>j < length df'. F1_Score (df' ! j) \<le> F1_Score (df' ! i')"
      by blast
    have mem: "df' ! i' \<in> set df" using i'(2) sets by (metis nth_mem)
    then obtain k where k: "k < length df" "df ! k = df' ! i'"
      by (metis in_set_conv_nth)
    have "df ! i \<in> set df'" using i(2) sets by (metis nth_mem)
    then obtain k' where k': "k' < length df'" "df' ! k' = df ! i"
      by (metis in_set_conv_nth)
    have le1: "F1_Score (df' ! i') \<le> F1_Score (df ! i)"
      using i(3) k by metis
    have le2: "F1_Score (df ! i) \<le> F1_Score (df' ! i')"
      using i'(3) k' by metis
    have eq: "F1_Score (df' ! i') = F1_Score (df ! i)"
      using le1 le2 by simp
    have "(\<forall>r \<in> set df. F1_Score r = F1_Score (df ! i) \<longrightarrow> r = df ! i) \<longrightarrow> df' ! i' = df ! i"
      using mem eq by blast
    then show ?thesis using i'(1) eq by blast
  qed
  show ?thesis
    using i perm seven by blast
qed

theorem best_model_selection_witness:
  "comparison_df seven_results = Inr (map2 mk_row models seven_results)
   \<and> select_best (map2 mk_row models seven_results) = Inr (1, ''LightGBM'', 92 / 100)
   \<and> select_best [toy_row ''a'' 0.80, toy_row ''b'' 0.92, toy_row ''c'' 0.85] = Inr (1, ''b'', 92 / 100)
   \<and> select_best [toy_row ''b'' 0.92, toy_row ''c'' 0.85, toy_row ''a'' 0.80] = Inr (0, ''b'', 92 / 100)
   \<and> select_best [toy_row ''c'' 0.85, toy_row ''a'' 0.80, toy_row ''b'' 0.92] = Inr (2, ''b'', 92 / 100)
   \<and> (\<exists>i'. select_best (rev (map2 mk_row models seven_results)) =
              Inr (i', Model (rev (map2 mk_row models seven_results) ! i'), 92 / 100))"
proof -
  let ?df = "map2 mk_row models seven_results"
  have len: "length seven_results = 7" by (simp add: seven_results_def)
  have ne: "?df \<noteq> []" by (simp add: models_def seven_results_def)
  from best_model_selection[OF ne] obtain i where
    i: "select_best ?df = Inr (i, Model (?df ! i), F1_Score (?df ! i))" "i < length ?df"
       "\<forall>j < length ?df. F1_Score (?df ! j) \<le> F1_Score (?df ! i)"
       "\<forall>j < i. F1_Score (?df ! j) < F1_Score (?df ! i)"
       "\<forall>df'. mset df' = mset ?df \<longrightarrow>
          (\<exists>i'. select_best df' = Inr (i', Model (df' ! i'), F1_Score (df' ! i'))
             \<and> F1_Score (df' ! i') = F1_Score (?df ! i)
             \<and> ((\<forall>r \<in> set ?df. F1_Score r = F1_Score (?df ! i) \<longrightarrow> r = ?df ! i)
                   \<longrightarrow> df' ! i' = ?df ! i))"
    by blast
  have "mset (rev ?df) = mset ?df" by (rule mset_rev)
  with i(5) obtain i' where
    i': "select_best (rev ?df) = Inr (i', Model (rev ?df ! i'), F1_Score (rev ?df ! i'))"
        "F1_Score (rev ?df ! i') = F1_Score (?df ! i)"
    by blast
  have l7: "length ?df = 7" by (simp add: models_def seven_results_def)
  have f: "F1_Score (?df ! 0) = 80 / 100" "F1_Score (?df ! 1) = 92 / 100"
    "F1_Score (?df ! 2) = 85 / 100" "F1_Score (?df ! 3) = 92 / 100"
    "F1_Score (?df ! 4) = 50 / 100" "F1_Score (?df ! 5) = 60 / 100"
    "F1_Score (?df ! 6) = 70 / 100" "Model (?df ! 1) = ''LightGBM''"
    by (simp_all add: models_def seven_results_def mk_row_def scored_def)
  have i7: "i < 7" using i(2) unfolding l7 .
  have "1 < length ?df" unfolding l7 by simp
  then have top: "F1_Score (?df ! 1) \<le> F1_Score (?df ! i)"
    by (rule i(3)[rule_format])
  have "i = 1"
  proof (rule ccontr)
    assume n: "i \<noteq> 1"
    from i7 n consider "i = 0" | "i = 2" | "i = 3" | "i = 4" | "i = 5" | "i = 6" by linarith
    then show False
    proof cases
      case 3
      then have "(1::nat) < i" by simp
      then have "F1_Score (?df ! 1) < F1_Score (?df ! i)"
        by (rule i(4)[rule_format])
      then show False unfolding 3 f by simp
    next
      case 1 with top show False unfolding 1 f by simp
    next
      case 2 with top show False unfolding 2 f by simp
    next
      case 4 with top show False unfolding 4 f by simp
    next
      case 5 with top show False unfolding 5 f by simp
    next
      case 6 with top show False unfolding 6 f by simp
    qed
  qed
  then have "select_best ?df = Inr (1, ''LightGBM'', 92 / 100)"
    using i(1) unfolding \<open>i = 1\<close> f by simp
  moreover have "\<exists>i'. select_best (rev ?df) = Inr (i', Model (rev ?df ! i'), 92 / 100)"
    using i' unfolding \<open>i = 1\<close> f by auto
  moreover have "comparison_df seven_results = Inr ?df"
    using comparison_df_rows(1)[OF len] .
  moreover have "select_best [toy_row ''a'' 0.80, toy_row ''b'' 0.92, toy_row ''c'' 0.85] = Inr (1, ''b'', 92 / 100)"
    by (simp add: select_best_def bnd_def idxmax_def toy_row_def mk_row_def scored_def)
  moreover have "select_best [toy_row ''b'' 0.92, toy_row ''c'' 0.85, toy_row ''a'' 0.80] = Inr (0, ''b'', 92 / 100)"
    by (simp add: select_best_def bnd_def idxmax_def toy_row_def mk_row_def scored_def)
  moreover have "select_best [toy_row ''c'' 0.85, toy_row ''a'' 0.80, toy_row ''b'' 0.92] = Inr (2, ''b'', 92 / 100)"
    by (simp add: select_best_def bnd_def idxmax_def toy_row_def mk_row_def scored_def)
  ultimately show ?thesis by blast
qed

subsection \<open>Attribution\<close>

lemma df_sample_ok:
  assumes "n \<le> length X" and "list_all (\<lambda>i. i < length X) (choice seed (length X) n)"
  shows "df_sample choice X n seed = Inr (map (\<lambda>i. X ! i) (choice seed (length X) n))"
  using assms by (simp add: df_sample_def)

text \<open>
  Claim C4. With more than 1000 test rows (and a generator that returns 1000 positions
  inside the test set), the rows given to the explainer are the 1000 rows sampled with
  seed 42, all of them rows of the test set, and the rows kept for plotting are the same
  rows: the two \<open>sample\<close> calls have the same arguments. With at most 1000 rows the
  explainer is given the whole test set, which is also kept for plotting. In every case
  the rows explained are the rows plotted.
\<close>

theorem attribution_subsample:
  "(1000 < length X_test
      \<and> length (choice 42 (length X_test) 1000) = 1000
      \<and> list_all (\<lambda>i. i < length X_test) (choice 42 (length X_test) 1000) \<longrightarrow>
        (\<exists>S. df_sample choice X_test 1000 42 = Inr S \<and> length S = 1000 \<and> set S \<subseteq> set X_test
            \<and> shap_cell explain choice X_test =
                bnd (explain S) (\<lambda>values.
                  Inr \<lparr>shap_values = values, explained_rows = S, X_test_sample = S\<rparr>)))
   \<and> (length X_test \<le> 1000 \<longrightarrow>
        shap_cell explain choice X_test =
          bnd (explain X_test) (\<lambda>values.
            Inr \<lparr>shap_values = values, explained_rows = X_test, X_test_sample = X_test\<rparr>))
   \<and> (shap_cell explain choice X_test = Inr a \<longrightarrow> explained_rows a = X_test_sample a)"
proof (intro conjI impI)
  assume h: "1000 < length X_test
      \<and> length (choice 42 (length X_test) 1000) = 1000
      \<and> list_all (\<lambda>i. i < length X_test) (choice 42 (length X_test) 1000)"
  let ?S = "map (\<lambda>i. X_test ! i) (choice 42 (length X_test) 1000)"
  have s: "df_sample choice X_test 1000 42 = Inr ?S"
    using h by (intro df_sample_ok) simp_all
  have len: "length ?S = 1000" using h by simp
  have sub: "set ?S \<subseteq> set X_test"
    using h by (auto simp: list_all_iff)
  have cell: "shap_cell explain choice X_test =
                bnd (explain ?S) (\<lambda>values.
                  Inr \<lparr>shap_values = values, explained_rows = ?S, X_test_sample = ?S\<rparr>)"
    using h by (simp add: shap_cell_def s bnd_def)
  show "\<exists>S. df_sample choice X_test 1000 42 = Inr S \<and> length S = 1000 \<and> set S \<subseteq> set X_test
            \<and> shap_cell explain choice X_test =
                bnd (explain S) (\<lambda>values.
                  Inr \<lparr>shap_values = values, explained_rows = S, X_test_sample = S\<rparr>)"
    using s len sub cell by blast
next
  assume "length X_test \<le> 1000"
  then show "shap_cell explain choice X_test =
          bnd (explain X_test) (\<lambda>values.
            Inr \<lparr>shap_values = values, explained_rows = X_test, X_test_sample = X_test\<rparr>)"
    by (simp add: shap_cell_def)
next
  assume "shap_cell explain choice X_test = Inr a"
  then show "explained_rows a = X_test_sample a"
    by (auto simp: shap_cell_def bnd_def split: if_splits sum.splits)
qed

theorem attribution_subsample_witness:
  "length big_test = 1200
   \<and> (\<exists>a. shap_cell halving_explainer rotating_choice big_test = Inr a
          \<and> length (explained_rows a) = 1000 \<and> explained_rows a = X_test_sample a
          \<and> set (explained_rows a) \<subseteq> set big_test
          \<and> explained_rows a = map (\<lambda>i. big_test ! i) (rotating_choice 42 1200 1000))
   \<and> shap_cell halving_explainer rotating_choice toy_test =
       Inr \<lparr>shap_values = map (map (\<lambda>v. v / 2)) toy_test, explained_rows = toy_test,
            X_test_sample = toy_test\<rparr>"
proof -
  have len: "length big_test = 1200" by (simp add: big_test_def)
  have h: "1000 < length big_test
      \<and> length (rotating_choice 42 (length big_test) 1000) = 1000
      \<and> list_all (\<lambda>i. i < length big_test) (rotating_choice 42 (length big_test) 1000)"
    by (auto simp: len rotating_choice_def list_all_iff dest: in_set_takeD)
  note inst = attribution_subsample[of big_test rotating_choice halving_explainer]
  from inst[THEN conjunct1, THEN mp, OF h] obtain S where
    S: "df_sample rotating_choice big_test 1000 42 = Inr S" "length S = 1000" "set S \<subseteq> set big_test"
       "shap_cell halving_explainer rotating_choice big_test =
          bnd (halving_explainer S) (\<lambda>values.
            Inr \<lparr>shap_values = values, explained_rows = S, X_test_sample = S\<rparr>)"
    by blast
  have S_eq: "S = map (\<lambda>i. big_test ! i) (rotating_choice 42 1200 1000)"
    using S(1) h by (simp add: df_sample_def len)
  have cell: "shap_cell halving_explainer rotating_choice big_test =
      Inr \<lparr>shap_values = map (map (\<lambda>v. v / 2)) S, explained_rows = S, X_test_sample = S\<rparr>"
    by (simp add: S(4) halving_explainer_def bnd_def)
  have same: "explained_rows \<lparr>shap_values = map (map (\<lambda>v. v / 2)) S, explained_rows = S, X_test_sample = S\<rparr>
      = X_test_sample \<lparr>shap_values = map (map (\<lambda>v. v / 2)) S, explained_rows = S, X_test_sample = S\<rparr>"
    using inst[THEN conjunct2, THEN conjunct2, THEN mp, OF cell] .
  have big: "\<exists>a. shap_cell halving_explainer rotating_choice big_test = Inr a
          \<and> length (explained_rows a) = 1000 \<and> explained_rows a = X_test_sample a
          \<and> set (explained_rows a) \<subseteq> set big_test
          \<and> explained_rows a = map (\<lambda>i. big_test ! i) (rotating_choice 42 1200 1000)"
    using S(2,3) S_eq same by (simp add: cell)
  have small: "length toy_test \<le> 1000" by (simp add: toy_test_def)
  have "shap_cell halving_explainer rotating_choice toy_test =
       Inr \<lparr>shap_values = map (map (\<lambda>v. v / 2)) toy_test, explained_rows = toy_test,
            X_test_sample = toy_test\<rparr>"
    using attribution_subsample[of toy_test rotating_choice halving_explainer,
            THEN conjunct2, THEN conjunct1, THEN mp, OF small]
    by (simp add: halving_explainer_def bnd_def)
  then show ?thesis using len big by blast
qed

lemma mean_abs_shap_nonneg: "list_all (\<lambda>s. 0 \<le> s) (mean_abs_shap values)"
  by (auto simp: mean_abs_shap_def list_all_iff intro!: divide_nonneg_nonneg sum_list_nonneg)

lemma length_mean_abs_shap: "length (mean_abs_shap values) = ncols values"
  by (simp add: mean_abs_shap_def)

lemma set_sort_desc: "set (sort_desc score rows) = set rows"
  by (simp add: sort_desc_def)

lemma sort_desc_hd:
  assumes "rows \<noteq> []"
  shows "sort_desc score rows \<noteq> []"
    and "hd (sort_desc score rows) \<in> set rows"
    and "\<forall>r \<in> set rows. score r \<le> score (hd (sort_desc score rows))"
proof -
  let ?ys = "sort_desc score rows"
  have ne: "set ?ys \<noteq> {}" using assms by (simp add: set_sort_desc)
  then show ne': "?ys \<noteq> []" by auto
  then obtain y ys where ys: "?ys = y # ys" by (cases ?ys) auto
  show "hd ?ys \<in> set rows"
    using ne' set_sort_desc[of score rows] by (metis list.set_sel(1))
  have "sorted (map (\<lambda>r. - score r) ?ys)"
    by (simp add: sort_desc_def)
  then have "\<forall>r \<in> set ys. - score y \<le> - score r"
    by (simp add: ys)
  then have "\<forall>r \<in> set (y # ys). score r \<le> score y"
    by auto
  moreover have "set rows = set (y # ys)"
    using set_sort_desc[of score rows] ys by simp
  moreover have "hd ?ys = y" by (simp add: ys)
  ultimately show "\<forall>r \<in> set rows. score r \<le> score (hd ?ys)"
    by simp
qed

lemma mean_abs_shap_lgb_values: "mean_abs_shap lgb_values = [1, 3]"
  by (simp add: mean_abs_shap_def lgb_values_def ncols_def upt_conv_Cons)

lemma feature_importance_xgb_values: "feature_importance two_features xgb_values = [(''bmi'', 2), (''age'', 1)]"
  by (simp add: feature_importance_def sort_desc_def mean_abs_shap_def xgb_values_def ncols_def upt_conv_Cons two_features_def)

lemma feature_importance_merged_values: "feature_importance_merged two_features xgb_values lgb_values = [(''bmi'', 2, 1), (''age'', 1, 3)]"
  unfolding feature_importance_merged_def feature_importance_xgb_values feature_importance_lgb_def mean_abs_shap_lgb_values
  by (simp add: merge_on_feature_def sort_desc_def two_features_def)

text \<open>
  Claim C5, as amended. The mean absolute attribution of every feature is non-negative,
  in the table of either classifier. The first row of the first classifier's ranked
  table carries the largest of that classifier's scores. The second classifier's scores
  are not ranked on their own: they stand in column order, and the merged table is
  ordered by the first classifier's score, so its first row carries the largest score of
  the first classifier.
\<close>

theorem attribution_scores_and_ranking:
  "list_all (\<lambda>s. 0 \<le> s) (mean_abs_shap values)
   \<and> list_all (\<lambda>r. 0 \<le> snd r) (feature_importance columns values)
   \<and> list_all (\<lambda>r. 0 \<le> snd r) (feature_importance_lgb columns values_lgb)
   \<and> (columns \<noteq> [] \<and> length columns = ncols values \<longrightarrow>
        feature_importance columns values \<noteq> []
        \<and> hd (feature_importance columns values) \<in> set (zip columns (mean_abs_shap values))
        \<and> snd (hd (feature_importance columns values)) = Max (set (mean_abs_shap values)))
   \<and> (feature_importance_merged columns values values_lgb \<noteq> [] \<longrightarrow>
        (\<forall>r \<in> set (feature_importance_merged columns values values_lgb).
            fst (snd r) \<le> fst (snd (hd (feature_importance_merged columns values values_lgb)))))"
proof (intro conjI impI)
  show "list_all (\<lambda>s. 0 \<le> s) (mean_abs_shap values)"
    by (rule mean_abs_shap_nonneg)
  have nn: "0 \<le> s" if "s \<in> set (mean_abs_shap v)" for s v
    using that mean_abs_shap_nonneg[of v] by (simp add: list_all_iff)
  show "list_all (\<lambda>r. 0 \<le> snd r) (feature_importance columns values)"
    by (auto simp: list_all_iff feature_importance_def set_sort_desc dest!: set_zip_rightD intro: nn)
  show "list_all (\<lambda>r. 0 \<le> snd r) (feature_importance_lgb columns values_lgb)"
    by (auto simp: list_all_iff feature_importance_lgb_def dest!: set_zip_rightD intro: nn)
next
  assume h: "columns \<noteq> [] \<and> length columns = ncols values"
  let ?z = "zip columns (mean_abs_shap values)"
  have len: "length columns = length (mean_abs_shap values)"
    using h by (simp add: length_mean_abs_shap)
  have zne: "?z \<noteq> []" using h len by (cases columns; cases "mean_abs_shap values") auto
  have fi: "feature_importance columns values = sort_desc snd ?z"
    by (simp add: feature_importance_def)
  show "feature_importance columns values \<noteq> []"
    using sort_desc_hd(1)[OF zne] fi by simp
  show mem: "hd (feature_importance columns values) \<in> set ?z"
    using sort_desc_hd(2)[OF zne] fi by simp
  have top: "\<forall>r \<in> set ?z. snd r \<le> snd (hd (feature_importance columns values))"
    using sort_desc_hd(3)[OF zne, of snd] fi by simp
  have scores: "snd ` set ?z = set (mean_abs_shap values)"
    using len by (metis map_snd_zip set_map)
  show "snd (hd (feature_importance columns values)) = Max (set (mean_abs_shap values))"
  proof (rule sym, rule Max_eqI)
    show "finite (set (mean_abs_shap values))" by simp
    show "snd (hd (feature_importance columns values)) \<in> set (mean_abs_shap values)"
      using mem scores by blast
    fix y assume "y \<in> set (mean_abs_shap values)"
    then have "y \<in> snd ` set ?z" using scores by simp
    then obtain r where "r \<in> set ?z" "snd r = y" by (auto simp: image_iff)
    then show "y \<le> snd (hd (feature_importance columns values))" using top by auto
  qed
next
  let ?m = "merge_on_feature (feature_importance columns values)
                         (feature_importance_lgb columns values_lgb)"
  assume ne: "feature_importance_merged columns values values_lgb \<noteq> []"
  have fm: "feature_importance_merged columns values values_lgb = sort_desc (\<lambda>(f, s, t). s) ?m"
    by (simp add: feature_importance_merged_def)
  have mne: "?m \<noteq> []" using ne fm by (auto simp: sort_desc_def)
  have "\<forall>r \<in> set ?m. (\<lambda>(f, s, t). s) r \<le> (\<lambda>(f, s, t). s) (hd (sort_desc (\<lambda>(f, s, t). s) ?m))"
    by (rule sort_desc_hd(3)[OF mne])
  then show "\<forall>r \<in> set (feature_importance_merged columns values values_lgb).
            fst (snd r) \<le> fst (snd (hd (feature_importance_merged columns values values_lgb)))"
    by (simp add: fm set_sort_desc case_prod_beta)
qed

theorem attribution_scores_and_ranking_witness:
  "two_features \<noteq> [] \<and> length two_features = ncols xgb_values
   \<and> feature_importance two_features xgb_values = [(''bmi'', 2), (''age'', 1)]
   \<and> mean_abs_shap xgb_values = [2, 1]
   \<and> snd (hd (feature_importance two_features xgb_values)) = Max (set (mean_abs_shap xgb_values))
   \<and> list_all (\<lambda>r. 0 \<le> snd r) (feature_importance_lgb two_features lgb_values)
   \<and> fst (snd (hd (feature_importance_merged two_features xgb_values lgb_values))) = 2
   \<and> fst (snd (''age'', 1 :: real, 3 :: real))
       \<le> fst (snd (hd (feature_importance_merged two_features xgb_values lgb_values)))"
proof -
  have h: "two_features \<noteq> [] \<and> length two_features = ncols xgb_values"
    by (simp add: two_features_def xgb_values_def ncols_def)
  note inst = attribution_scores_and_ranking[of xgb_values two_features lgb_values]
  have a: "snd (hd (feature_importance two_features xgb_values)) = Max (set (mean_abs_shap xgb_values))"
    using inst h by blast
  have b: "list_all (\<lambda>r. 0 \<le> snd r) (feature_importance_lgb two_features lgb_values)"
    using inst by blast
  have c: "feature_importance two_features xgb_values = [(''bmi'', 2), (''age'', 1)]"
    by (rule feature_importance_xgb_values)
  have d: "mean_abs_shap xgb_values = [2, 1]"
    by (simp add: mean_abs_shap_def xgb_values_def ncols_def upt_conv_Cons)
  have e: "fst (snd (hd (feature_importance_merged two_features xgb_values lgb_values))) = 2"
    by (simp add: feature_importance_merged_values)
  have ne: "feature_importance_merged two_features xgb_values lgb_values \<noteq> []"
    by (simp add: feature_importance_merged_values)
  have mem: "(''age'', 1, 3) \<in> set (feature_importance_merged two_features xgb_values lgb_values)"
    by (simp add: feature_importance_merged_values)
  have g: "fst (snd (''age'', 1 :: real, 3 :: real))
       \<le> fst (snd (hd (feature_importance_merged two_features xgb_values lgb_values)))"
    using inst ne mem by blast
  show ?thesis using h a b c d e g by blast
qed

text \<open>
  Claim C5 as stated fails for the second classifier: in both tables that hold its
  scores the first row is \<open>bmi\<close> with score 1, while \<open>age\<close> has score 3.
\<close>

theorem lightgbm_first_row_is_not_its_maximum:
  "mean_abs_shap lgb_values = [1, 3]
   \<and> feature_importance_lgb two_features lgb_values = [(''bmi'', 1), (''age'', 3)]
   \<and> feature_importance_merged two_features xgb_values lgb_values = [(''bmi'', 2, 1), (''age'', 1, 3)]
   \<and> snd (hd (feature_importance_lgb two_features lgb_values)) < Max (set (mean_abs_shap lgb_values))
   \<and> snd (snd (hd (feature_importance_merged two_features xgb_values lgb_values)))
       < Max (set (mean_abs_shap lgb_values))"
proof -
  have l: "feature_importance_lgb two_features lgb_values = [(''bmi'', 1), (''age'', 3)]"
    by (simp add: feature_importance_lgb_def mean_abs_shap_lgb_values two_features_def)
  show ?thesis by (simp add: mean_abs_shap_lgb_values feature_importance_merged_values l)
qed

subsection \<open>Saving\<close>

lemmas save_defs = save_cell_def save_found_def makedirs_exist_ok_def dump_def say_def path_join_def
  model_results_map_def

lemma lower_examples:
  "lower ''XGBoost'' = ''xgboost''" "lower ''Stacked_Ensemble'' = ''stacked_ensemble''"
  "lower ''LightGBM'' = ''lightgbm''"
  by (simp_all add: lower_def lower_char_def)

lemma save_cell_not_found:
  assumes "map_of (model_results_map s) (best_model_name s) = None"
  shows "fs_files (save_cell s w) =
           fs_files w @ [(''models/feature_importance.csv'', ImportanceCsv (importance_table s))]"
    and "printed (save_cell s w) =
           printed w @ [''Could not find the best model to save.'',
                        ''Feature importance information saved to models/feature_importance.csv'']"
  using assms by (simp_all add: save_cell_def makedirs_exist_ok_def dump_def say_def path_join_def Let_def)

lemma save_cell_last_write:
  "last (fs_files (save_cell s w)) =
     (''models/feature_importance.csv'', ImportanceCsv (importance_table s))"
  by (simp add: save_cell_def dump_def say_def path_join_def Let_def)

text \<open>
  Claim C9. When the winning name is one of the four names the comparison table gives to
  the configurations on compressed features, the dictionary of result bundles has no
  entry for it: the cell prints the fallback message and writes no model, projector,
  encoder or ensemble file. For every winning name the last file written is the
  feature-importance table.
\<close>

theorem unmatched_names_save_nothing:
  "(best_model_name s \<in> {''XGBoost+PCA'', ''LightGBM+PCA'', ''XGBoost+Autoencoder'', ''LightGBM+Autoencoder''} \<longrightarrow>
      map_of (model_results_map s) (best_model_name s) = None
      \<and> fs_files (save_cell s w) =
          fs_files w @ [(''models/feature_importance.csv'', ImportanceCsv (importance_table s))]
      \<and> printed (save_cell s w) =
          printed w @ [''Could not find the best model to save.'',
                       ''Feature importance information saved to models/feature_importance.csv''])
   \<and> last (fs_files (save_cell s w)) =
       (''models/feature_importance.csv'', ImportanceCsv (importance_table s))"
proof (intro conjI impI)
  assume "best_model_name s \<in> {''XGBoost+PCA'', ''LightGBM+PCA'', ''XGBoost+Autoencoder'', ''LightGBM+Autoencoder''}"
  then show nf: "map_of (model_results_map s) (best_model_name s) = None"
    by (auto simp: model_results_map_def)
  show "fs_files (save_cell s w) =
          fs_files w @ [(''models/feature_importance.csv'', ImportanceCsv (importance_table s))]"
    using nf by (rule save_cell_not_found(1))
  show "printed (save_cell s w) =
          printed w @ [''Could not find the best model to save.'',
                       ''Feature importance information saved to models/feature_importance.csv'']"
    using nf by (rule save_cell_not_found(2))
next
  show "last (fs_files (save_cell s w)) =
       (''models/feature_importance.csv'', ImportanceCsv (importance_table s))"
    by (rule save_cell_last_write)
qed

lemma toy_saves:
  "fs_files (save_cell (toy_session ''XGBoost'') empty_world) =
     [(''models/xgboost.pkl'', ModelPkl 0), (''models/stacked_ensemble.pkl'', ModelPkl 6),
      (''models/feature_importance.csv'', ImportanceCsv toy_table)]"
  "map fst (fs_files (save_cell (toy_session ''XGBoost with PCA'') empty_world)) =
     [''models/xgboost_with_pca.pkl'', ''models/pca_transformer.pkl'',
      ''models/stacked_ensemble.pkl'', ''models/feature_importance.csv'']"
  by (simp_all add: save_defs toy_session_def empty_world_def scored_def lower_def lower_char_def
        replace_char_def Let_def)

text \<open>
  Claim C3 on a concrete run. With the best F1 score on the third configuration the
  selection yields the name \<open>XGBoost+PCA\<close>; the save cell finds no bundle under that name
  and the only file it writes is the feature-importance table: the ensemble is not
  saved. With the best score on \<open>LightGBM\<close> the ensemble is saved next to the best model.
\<close>

theorem ensemble_missing_when_pca_config_wins:
  "select_best (map2 mk_row models pca_wins_results) = Inr (2, ''XGBoost+PCA'', 92 / 100)
   \<and> (\<exists>w. select_and_save pca_wins_results red table empty_world = Inr w
          \<and> fs_files w = [(''models/feature_importance.csv'', ImportanceCsv table)]
          \<and> printed w = [''Could not find the best model to save.'',
                          ''Feature importance information saved to models/feature_importance.csv''])
   \<and> (\<exists>w. select_and_save seven_results red table empty_world = Inr w
          \<and> fs_files w = [(''models/lightgbm.pkl'', ModelPkl 1),
                           (''models/stacked_ensemble.pkl'', ModelPkl 6),
                           (''models/feature_importance.csv'', ImportanceCsv table)])"
proof -
  have vals: "map F1_Score (map2 mk_row models pca_wins_results)
        = [80 / 100, 85 / 100, 92 / 100, 90 / 100, 50 / 100, 60 / 100, 91 / 100]"
    by (simp add: models_def pca_wins_results_def mk_row_def scored_def)
  have sel: "select_best (map2 mk_row models pca_wins_results) = Inr (2, ''XGBoost+PCA'', 92 / 100)"
    by (simp add: select_best_def bnd_def idxmax_def vals)
       (simp add: models_def pca_wins_results_def mk_row_def scored_def)
  have cdf: "comparison_df pca_wins_results = Inr (map2 mk_row models pca_wins_results)"
    by (simp add: comparison_df_def models_def pca_wins_results_def)
  have vals7: "map F1_Score (map2 mk_row models seven_results)
        = [80 / 100, 92 / 100, 85 / 100, 92 / 100, 50 / 100, 60 / 100, 70 / 100]"
    by (simp add: models_def seven_results_def mk_row_def scored_def)
  have sel7: "select_best (map2 mk_row models seven_results) = Inr (1, ''LightGBM'', 92 / 100)"
    by (simp add: select_best_def bnd_def idxmax_def vals7)
       (simp add: models_def seven_results_def mk_row_def scored_def)
  have cdf7: "comparison_df seven_results = Inr (map2 mk_row models seven_results)"
    by (simp add: comparison_df_def models_def seven_results_def)
  have a: "\<exists>w. select_and_save pca_wins_results red table empty_world = Inr w
          \<and> fs_files w = [(''models/feature_importance.csv'', ImportanceCsv table)]
          \<and> printed w = [''Could not find the best model to save.'',
                          ''Feature importance information saved to models/feature_importance.csv'']"
    by (simp add: select_and_save_def cdf sel bnd_def save_defs empty_world_def Let_def)
  have b: "\<exists>w. select_and_save seven_results red table empty_world = Inr w
          \<and> fs_files w = [(''models/lightgbm.pkl'', ModelPkl 1),
                           (''models/stacked_ensemble.pkl'', ModelPkl 6),
                           (''models/feature_importance.csv'', ImportanceCsv table)]"
    by (simp add: select_and_save_def cdf7 sel7 bnd_def)
       (simp add: save_defs empty_world_def Let_def seven_results_def scored_def lower_def
          lower_char_def replace_char_def)
  show ?thesis using sel a b by blast
qed

theorem unmatched_names_save_nothing_witness:
  "map_of (model_results_map (toy_session ''XGBoost+PCA'')) ''XGBoost+PCA'' = None
   \<and> fs_files (save_cell (toy_session ''XGBoost+PCA'') empty_world) =
       [(''models/feature_importance.csv'', ImportanceCsv toy_table)]
   \<and> printed (save_cell (toy_session ''XGBoost+PCA'') empty_world) =
       [''Could not find the best model to save.'',
        ''Feature importance information saved to models/feature_importance.csv'']
   \<and> fs_files (save_cell (toy_session ''LightGBM+Autoencoder'') empty_world) =
       [(''models/feature_importance.csv'', ImportanceCsv toy_table)]
   \<and> last (fs_files (save_cell (toy_session ''XGBoost'') empty_world)) =
       (''models/feature_importance.csv'', ImportanceCsv toy_table)"
proof -
  have n1: "best_model_name (toy_session ''XGBoost+PCA'')
      \<in> {''XGBoost+PCA'', ''LightGBM+PCA'', ''XGBoost+Autoencoder'', ''LightGBM+Autoencoder''}"
    by (simp add: toy_session_def)
  have n2: "best_model_name (toy_session ''LightGBM+Autoencoder'')
      \<in> {''XGBoost+PCA'', ''LightGBM+PCA'', ''XGBoost+Autoencoder'', ''LightGBM+Autoencoder''}"
    by (simp add: toy_session_def)
  note i1 = unmatched_names_save_nothing[of "toy_session ''XGBoost+PCA''" empty_world, THEN conjunct1, THEN mp, OF n1]
  note i2 = unmatched_names_save_nothing[of "toy_session ''LightGBM+Autoencoder''" empty_world, THEN conjunct1, THEN mp, OF n2]
  note i3 = unmatched_names_save_nothing[of "toy_session ''XGBoost''" empty_world, THEN conjunct2]
  have t: "importance_table (toy_session n) = toy_table" "best_model_name (toy_session n) = n" for n
    by (simp_all add: toy_session_def)
  have e: "fs_files empty_world = []" "printed empty_world = []"
    by (simp_all add: empty_world_def)
  show ?thesis using i1 i2 i3 by (simp add: t e)
qed

end
